theory Spec2Isabelle
  imports
    Complex_Main
    "HOL-Library.Sublist"
    "HOL-Library.Char_ord"
    "HOL-Library.List_Lexorder"
    "HOL-Library.AList"
begin

section \<open>The two Plotter classes of the repository\<close>

text \<open>
  The repository holds two near-duplicate Python classes, both named \<open>Plotter\<close>:
  \<^item> \<open>src/plotter.py\<close>: thirteen chart calls in \<open>draw_plots\<close>, a method
    \<open>draw_combined_boxplots\<close>, and \<open>__save_plot_to_file\<close> replaces spaces;
  \<^item> \<open>src/ChartDrawer.py\<close>: nine chart calls, no combined box plot, no replacement.

  The methods are embedded as HOL functions. A method that calls matplotlib, seaborn,
  requests or \<open>print\<close> returns the list of those calls (its events) in order, next to
  its result; a raised exception is the \<open>Inl\<close> of a sum, and the events made before the
  raise are kept. Numbers are real numbers: the rounding of Python's floats is not
  modelled. Paths are joined as on POSIX.

  pandas, seaborn, matplotlib and requests are not part of the repository. Their calls
  are modelled by what they do with a table: how pandas and seaborn look a column up and
  which exception each raises for a missing one, how pandas sorts, reshapes and
  concatenates. Drawing the data that was found and writing the image into the plot
  directory are taken to succeed.
\<close>

subsection \<open>Tables\<close>

text \<open>
  A cell of a table is a number, a string, or the missing value (pandas' NaN, JSON's
  null). A column is the list of its cells, a table the list of its named columns in
  order (\<open>pandas.DataFrame\<close> with the default row index).
\<close>

datatype cell = Num real | Str string | NaN

type_synonym series = "cell list"

type_synonym frame = "(string \<times> series) list"

datatype exc =
    KeyError "string list"
  | ValueError string
  | TypeError
  | FileExistsError
  | RequestException
  | OtherException

fun is_Num :: "cell \<Rightarrow> bool" where
  "is_Num (Num _) = True"
| "is_Num _ = False"

fun is_Str :: "cell \<Rightarrow> bool" where
  "is_Str (Str _) = True"
| "is_Str _ = False"

fun num_of :: "cell \<Rightarrow> real" where
  "num_of (Num r) = r"
| "num_of _ = 0"

fun str_of :: "cell \<Rightarrow> string" where
  "str_of (Str s) = s"
| "str_of _ = []"

definition columns :: "frame \<Rightarrow> string list" where
  "columns df = map fst df"

text \<open>\<open>data[column]\<close>: pandas raises KeyError for a name that is not a column.\<close>

definition getitem :: "frame \<Rightarrow> string \<Rightarrow> exc + series" where
  "getitem df c = (case map_of df c of None \<Rightarrow> Inl (KeyError [c]) | Some s \<Rightarrow> Inr s)"

text \<open>
  \<open>data[columns]\<close> with a list of names: the sub-table of those columns in the order
  asked; KeyError naming the missing ones when a name is not a column.
\<close>

definition getitems :: "frame \<Rightarrow> string list \<Rightarrow> exc + frame" where
  "getitems df cs =
     (let missing = filter (\<lambda>c. c \<notin> set (columns df)) cs
      in if missing \<noteq> [] then Inl (KeyError missing)
         else Inr (map (\<lambda>c. (c, case map_of df c of Some s \<Rightarrow> s | None \<Rightarrow> [])) cs))"

subsection \<open>Strings and paths\<close>

text \<open>
  Python's \<open>str.replace(old, new)\<close>: the occurrences of \<open>old\<close> are replaced from the
  left, without overlap; an empty \<open>old\<close> matches before every character and at the end.
\<close>

fun str_replace :: "string \<Rightarrow> string \<Rightarrow> string \<Rightarrow> string" where
  "str_replace old new [] = (if old = [] then new else [])"
| "str_replace old new (c # cs) =
     (if old = [] then new @ c # str_replace old new cs
      else if prefix old (c # cs)
      then new @ str_replace old new (drop (length old - 1) cs)
      else c # str_replace old new cs)"

text \<open>\<open>os.path.join(a, b)\<close> of posixpath.\<close>

definition os_path_join :: "string \<Rightarrow> string \<Rightarrow> string" where
  "os_path_join a b =
     (if prefix ''/'' b then b
      else if a = [] \<or> suffix ''/'' a then a @ b
      else a @ ''/'' @ b)"

text \<open>\<open>str(n)\<close> of an integer, as the f-string of a chart title formats it.\<close>

definition digit_char :: "nat \<Rightarrow> char" where
  "digit_char d = char_of (48 + d)"

fun str_nat :: "nat \<Rightarrow> string" where
  "str_nat n = (if n < 10 then [digit_char n] else str_nat (n div 10) @ [digit_char (n mod 10)])"

declare str_nat.simps [simp del]

definition str_int :: "int \<Rightarrow> string" where
  "str_int i = (if i < 0 then CHR ''-'' # str_nat (nat (- i)) else str_nat (nat i))"

subsection \<open>Events\<close>

text \<open>
  What a Python float expression over a column yields: a number, NaN, or (for a column
  of strings) a string.
\<close>

datatype scalar = SNum real | SNaN | SStr string

datatype event =
    Print string
  | PrintExc string exc
  | HttpHead string nat
  | ReadJson string
  | Figure
  | PlotLine "scalar list" "scalar list" string nat nat
  | SetTitle string
  | XLabel string
  | YLabel string
  | ScatterPlot series series nat
  | HistPlot series string string
  | BoxPlot string string "string option" frame
  | BarPlot string string frame
  | SaveFig string nat
  | Show
  | Close

type_synonym 'a action = "event list \<times> (exc + 'a)"

subsection \<open>Saving a chart\<close>

datatype variant = PlotterPy | ChartDrawerPy

text \<open>\<open>self.plot_dir\<close>, set once by \<open>__init__\<close> of both classes.\<close>

definition plot_dir :: string where
  "plot_dir = ''plots''"

text \<open>
  \<open>__save_plot_to_file(filename)\<close>. Only \<open>src/plotter.py\<close> has the first line,
  \<open>filename = filename.replace(' ', '_')\<close>.
\<close>

definition save_plot_to_file :: "variant \<Rightarrow> string \<Rightarrow> event list \<times> string" where
  "save_plot_to_file v filename =
     (let filename' = (case v of PlotterPy \<Rightarrow> str_replace '' '' ''_'' filename
                                | ChartDrawerPy \<Rightarrow> filename);
          filepath = os_path_join plot_dir filename' @ ''.png''
      in ([SaveFig filepath 300], filepath))"

subsection \<open>Sequencing calls\<close>

text \<open>
  An action is the events of a piece of Python next to its value or the exception it
  raised. \<open>bind\<close> runs one action after another; after a raise nothing more runs.
\<close>

definition ret :: "'a \<Rightarrow> 'a action" where
  "ret x = ([], Inr x)"

definition emit :: "event \<Rightarrow> unit action" where
  "emit ev = ([ev], Inr ())"

definition lift :: "exc + 'a \<Rightarrow> 'a action" where
  "lift r = ([], r)"

definition bind :: "'a action \<Rightarrow> ('a \<Rightarrow> 'b action) \<Rightarrow> 'b action" where
  "bind m f =
     (case m of
        (evs, Inl e) \<Rightarrow> (evs, Inl e)
      | (evs, Inr x) \<Rightarrow> (case f x of (evs', r) \<Rightarrow> (evs @ evs', r)))"

definition seq :: "unit action \<Rightarrow> 'b action \<Rightarrow> 'b action" where
  "seq m n = bind m (\<lambda>_. n)"

definition bindE :: "exc + 'a \<Rightarrow> ('a \<Rightarrow> exc + 'b) \<Rightarrow> exc + 'b" where
  "bindE m f = (case m of Inl e \<Rightarrow> Inl e | Inr x \<Rightarrow> f x)"

subsection \<open>The pandas operations the charts use\<close>

text \<open>
  \<open>Series.max()\<close> and \<open>Series.min()\<close> skip missing values; with nothing left the
  result is NaN. A column of strings yields its greatest (least) string; strings next to
  numbers or missing values cannot be compared (TypeError).
\<close>

definition series_max :: "series \<Rightarrow> exc + scalar" where
  "series_max s =
     (if list_ex is_Str s then
        (case s of
           [] \<Rightarrow> Inr SNaN
         | c # cs \<Rightarrow>
             if list_all is_Str s then Inr (SStr (fold max (map str_of cs) (str_of c)))
             else Inl TypeError)
      else
        (case filter (\<lambda>c. c \<noteq> NaN) s of
           [] \<Rightarrow> Inr SNaN
         | c # cs \<Rightarrow> Inr (SNum (fold max (map num_of cs) (num_of c)))))"

definition series_min :: "series \<Rightarrow> exc + scalar" where
  "series_min s =
     (if list_ex is_Str s then
        (case s of
           [] \<Rightarrow> Inr SNaN
         | c # cs \<Rightarrow>
             if list_all is_Str s then Inr (SStr (fold min (map str_of cs) (str_of c)))
             else Inl TypeError)
      else
        (case filter (\<lambda>c. c \<noteq> NaN) s of
           [] \<Rightarrow> Inr SNaN
         | c # cs \<Rightarrow> Inr (SNum (fold min (map num_of cs) (num_of c)))))"

text \<open>
  Python's \<open>a > b\<close> and \<open>a < b\<close> on two such values: every comparison with NaN is
  false, a string and a float do not compare.
\<close>

fun py_gt :: "scalar \<Rightarrow> scalar \<Rightarrow> exc + bool" where
  "py_gt (SNum a) (SNum b) = Inr (a > b)"
| "py_gt (SStr a) (SStr b) = Inr (a > b)"
| "py_gt (SStr a) _ = Inl TypeError"
| "py_gt _ (SStr b) = Inl TypeError"
| "py_gt _ _ = Inr False"

fun py_lt :: "scalar \<Rightarrow> scalar \<Rightarrow> exc + bool" where
  "py_lt (SNum a) (SNum b) = Inr (a < b)"
| "py_lt (SStr a) (SStr b) = Inr (a < b)"
| "py_lt (SStr a) _ = Inl TypeError"
| "py_lt _ (SStr b) = Inl TypeError"
| "py_lt _ _ = Inr False"

text \<open>The builtins \<open>max(a, b)\<close> and \<open>min(a, b)\<close>: \<open>b\<close> wins only when it compares beyond \<open>a\<close>.\<close>

definition py_max :: "scalar \<Rightarrow> scalar \<Rightarrow> exc + scalar" where
  "py_max a b = bindE (py_gt b a) (\<lambda>g. Inr (if g then b else a))"

definition py_min :: "scalar \<Rightarrow> scalar \<Rightarrow> exc + scalar" where
  "py_min a b = bindE (py_lt b a) (\<lambda>l. Inr (if l then b else a))"

text \<open>\<open>a * k\<close> for a float \<open>k\<close>.\<close>

fun py_mul :: "scalar \<Rightarrow> real \<Rightarrow> exc + scalar" where
  "py_mul (SNum a) k = Inr (SNum (a * k))"
| "py_mul SNaN k = Inr SNaN"
| "py_mul (SStr s) k = Inl TypeError"

text \<open>
  \<open>DataFrame.sort_values(by, ascending)\<close> orders the row numbers by the key column
  (pandas' \<open>nargsort\<close>): rows with a missing key go last, in their order; the others
  are sorted by key, and for a descending sort the row numbers are reversed before and
  after, as pandas does. The sort is modelled as stable; pandas' default quicksort does
  not promise an order among equal keys, and no theorem below depends on one.
\<close>

definition argsort_by :: "(nat \<Rightarrow> 'k::linorder) \<Rightarrow> nat list \<Rightarrow> bool \<Rightarrow> nat list" where
  "argsort_by key idx ascending =
     (if ascending then sort_key key idx else rev (sort_key key (rev idx)))"

definition nargsort :: "series \<Rightarrow> bool \<Rightarrow> exc + nat list" where
  "nargsort items ascending =
     (let idx = [0..<length items];
          non_nan_idx = filter (\<lambda>i. items ! i \<noteq> NaN) idx;
          nan_idx = filter (\<lambda>i. items ! i = NaN) idx;
          non_nans = filter (\<lambda>c. c \<noteq> NaN) items
      in if list_all is_Num non_nans
         then Inr (argsort_by (\<lambda>i. num_of (items ! i)) non_nan_idx ascending @ nan_idx)
         else if list_all is_Str non_nans
         then Inr (argsort_by (\<lambda>i. str_of (items ! i)) non_nan_idx ascending @ nan_idx)
         else Inl TypeError)"

text \<open>
  The rows of a table at the given row numbers, in that order. Every column of a pandas
  table has the table's number of rows, so the row numbers of one column index all.
\<close>

definition take_rows :: "frame \<Rightarrow> nat list \<Rightarrow> frame" where
  "take_rows df idx = map (\<lambda>(c, s). (c, map (\<lambda>i. s ! i) idx)) df"

definition sort_values :: "frame \<Rightarrow> string \<Rightarrow> bool \<Rightarrow> exc + frame" where
  "sort_values df by ascending =
     bindE (getitem df by) (\<lambda>keys.
     bindE (nargsort keys ascending) (\<lambda>indexer.
     Inr (take_rows df indexer)))"

text \<open>\<open>xs[:n]\<close>: a negative \<open>n\<close> leaves out the last \<open>-n\<close> elements.\<close>

definition slice_to :: "int \<Rightarrow> 'a list \<Rightarrow> 'a list" where
  "slice_to n xs = (if 0 \<le> n then take (nat n) xs else take (length xs - nat (- n)) xs)"

definition head :: "int \<Rightarrow> frame \<Rightarrow> frame" where
  "head n df = map (\<lambda>(c, s). (c, slice_to n s)) df"

definition nrows :: "frame \<Rightarrow> nat" where
  "nrows df = (case df of [] \<Rightarrow> 0 | (_, s) # _ \<Rightarrow> length s)"

text \<open>
  \<open>pd.melt(frame, var_name, value_name)\<close> with no id columns: one row per cell, the
  column's name under \<open>var_name\<close> and the cell under \<open>value_name\<close>, column after
  column. pandas 2 raises ValueError when \<open>value_name\<close> is already a column.
\<close>

definition melt :: "frame \<Rightarrow> string \<Rightarrow> string \<Rightarrow> exc + frame" where
  "melt df var_name value_name =
     (if value_name \<in> set (columns df) then Inl (ValueError value_name)
      else Inr [(var_name, concat (map (\<lambda>(c, s). replicate (length s) (Str c)) df)),
                (value_name, concat (map snd df))])"

text \<open>\<open>df[c] = v\<close> for a scalar and for a column: replaced in place, or added last.\<close>

definition setitem_scalar :: "frame \<Rightarrow> string \<Rightarrow> cell \<Rightarrow> frame" where
  "setitem_scalar df c v = AList.update c (replicate (nrows df) v) df"

definition setitem :: "frame \<Rightarrow> string \<Rightarrow> series \<Rightarrow> frame" where
  "setitem df c s = AList.update c s df"

text \<open>
  \<open>pd.concat([a, b])\<close>: the rows of \<open>b\<close> under those of \<open>a\<close>; a column that one of
  them lacks is filled with missing values there.
\<close>

definition column_or_nan :: "frame \<Rightarrow> string \<Rightarrow> series" where
  "column_or_nan df c =
     (case map_of df c of Some s \<Rightarrow> s | None \<Rightarrow> replicate (nrows df) NaN)"

definition pd_concat :: "frame \<Rightarrow> frame \<Rightarrow> frame" where
  "pd_concat a b =
     map (\<lambda>c. (c, column_or_nan a c @ column_or_nan b c))
       (columns a @ filter (\<lambda>c. c \<notin> set (columns a)) (columns b))"

text \<open>
  \<open>series.str.replace(old, new)\<close>: strings are rewritten, other cells become missing;
  a column with no string at all has no \<open>.str\<close> accessor (an AttributeError,
  \<open>OtherException\<close> here).
\<close>

definition series_str_replace :: "series \<Rightarrow> string \<Rightarrow> string \<Rightarrow> exc + series" where
  "series_str_replace s old new =
     (if s \<noteq> [] \<and> \<not> list_ex is_Str s then Inl OtherException
      else Inr (map (\<lambda>c. case c of Str t \<Rightarrow> Str (str_replace old new t) | _ \<Rightarrow> NaN) s))"

subsection \<open>The seaborn calls\<close>

text \<open>
  seaborn looks up the names it is given in \<open>data\<close> itself and raises ValueError
  (not KeyError) for a name that is not a column. Drawing the data it found is one event.
\<close>

definition sns_lookup :: "frame \<Rightarrow> string \<Rightarrow> exc + series" where
  "sns_lookup df name =
     (case map_of df name of None \<Rightarrow> Inl (ValueError name) | Some s \<Rightarrow> Inr s)"

definition sns_scatterplot :: "string \<Rightarrow> string \<Rightarrow> frame \<Rightarrow> nat \<Rightarrow> unit action" where
  "sns_scatterplot x y df zorder =
     bind (lift (sns_lookup df x)) (\<lambda>sx.
     bind (lift (sns_lookup df y)) (\<lambda>sy.
     emit (ScatterPlot sx sy zorder)))"

definition sns_histplot :: "series \<Rightarrow> string \<Rightarrow> string \<Rightarrow> unit action" where
  "sns_histplot s label bins = emit (HistPlot s label bins)"

definition sns_boxplot :: "string \<Rightarrow> string \<Rightarrow> string option \<Rightarrow> frame \<Rightarrow> unit action" where
  "sns_boxplot x y hue df =
     bind (lift (sns_lookup df x)) (\<lambda>_.
     bind (lift (sns_lookup df y)) (\<lambda>_.
     bind (lift (case hue of None \<Rightarrow> Inr [] | Some h \<Rightarrow> sns_lookup df h)) (\<lambda>_.
     emit (BoxPlot x y hue df))))"

definition sns_barplot :: "string \<Rightarrow> string \<Rightarrow> frame \<Rightarrow> unit action" where
  "sns_barplot x y df =
     bind (lift (sns_lookup df x)) (\<lambda>_.
     bind (lift (sns_lookup df y)) (\<lambda>_.
     emit (BarPlot x y df)))"

subsection \<open>The chart methods\<close>

text \<open>\<open>__show_and_close_plot\<close> and \<open>__plot_setup(title, xlabel, ylabel)\<close>.\<close>

definition show_and_close_plot :: "unit action" where
  "show_and_close_plot = seq (emit Show) (emit Close)"

definition plot_setup :: "string \<Rightarrow> string \<Rightarrow> string \<Rightarrow> unit action" where
  "plot_setup title xlabel ylabel =
     seq (emit (SetTitle title)) (seq (emit (XLabel xlabel)) (emit (YLabel ylabel)))"

text \<open>
  The call of \<open>__save_plot_to_file\<close> at the end of every chart method, followed by
  \<open>__show_and_close_plot\<close> and \<open>return path\<close>.
\<close>

definition save_show_return :: "variant \<Rightarrow> string \<Rightarrow> string action" where
  "save_show_return v title =
     (case save_plot_to_file v title of (evs, path) \<Rightarrow>
        seq (evs, Inr ()) (seq show_and_close_plot (ret path)))"

text \<open>
  \<open>max(data[x].max(), data[y].max()) * 1.1\<close> and
  \<open>min(data[x].min(), data[y].min()) * 0.9\<close>, evaluated left to right.
\<close>

definition max_limit :: "frame \<Rightarrow> string \<Rightarrow> string \<Rightarrow> exc + scalar" where
  "max_limit df x y =
     bindE (getitem df x) (\<lambda>sx. bindE (series_max sx) (\<lambda>mx.
     bindE (getitem df y) (\<lambda>sy. bindE (series_max sy) (\<lambda>my.
     bindE (py_max mx my) (\<lambda>m. py_mul m (11 / 10))))))"

definition min_limit :: "frame \<Rightarrow> string \<Rightarrow> string \<Rightarrow> exc + scalar" where
  "min_limit df x y =
     bindE (getitem df x) (\<lambda>sx. bindE (series_min sx) (\<lambda>mx.
     bindE (getitem df y) (\<lambda>sy. bindE (series_min sy) (\<lambda>my.
     bindE (py_min mx my) (\<lambda>m. py_mul m (9 / 10))))))"

text \<open>\<open>draw_scatterplot(data, x, y, add_line=False)\<close>, the same in both files.\<close>

definition draw_scatterplot ::
  "variant \<Rightarrow> frame \<Rightarrow> string \<Rightarrow> string \<Rightarrow> bool \<Rightarrow> string action" where
  "draw_scatterplot v df x y add_line =
     seq (emit Figure)
     (let title = ''Scatter plot '' @ x @ '' vs '' @ y in
      seq (if add_line
           then bind (lift (max_limit df x y)) (\<lambda>hi.
                bind (lift (min_limit df x y)) (\<lambda>lo.
                emit (PlotLine [lo, hi] [lo, hi] ''r--'' 1 1)))
           else ret ())
      (seq (plot_setup title x y)
      (seq (sns_scatterplot x y df 2)
      (save_show_return v title))))"

text \<open>\<open>draw_histogram(data, column, bins='auto')\<close>.\<close>

definition draw_histogram :: "variant \<Rightarrow> frame \<Rightarrow> string \<Rightarrow> string \<Rightarrow> string action" where
  "draw_histogram v df column bins =
     seq (emit Figure)
     (bind (lift (getitem df column)) (\<lambda>s.
      seq (sns_histplot s column bins)
     (let title = ''Histogram for '' @ column in
      seq (plot_setup title ''Degrees'' ''Frequency'')
     (save_show_return v title))))"

text \<open>\<open>draw_boxplots(data, columns, title)\<close>; \<open>pd.melt\<close> with its default names.\<close>

definition draw_boxplots :: "variant \<Rightarrow> frame \<Rightarrow> string list \<Rightarrow> string \<Rightarrow> string action" where
  "draw_boxplots v df cols title =
     seq (emit Figure)
     (bind (lift (getitems df cols)) (\<lambda>sub.
      bind (lift (melt sub ''variable'' ''value'')) (\<lambda>long.
      seq (sns_boxplot ''variable'' ''value'' None long)
     (let title = ''Boxplots for '' @ title in
      seq (plot_setup title [] ''Degrees'')
     (save_show_return v title)))))"

text \<open>
  \<open>draw_combined_boxplots(data, columns_1, columns_2, title)\<close>, of \<open>src/plotter.py\<close>
  only. The melted tables name their category column \<open>metric\<close>; the next statement
  reads \<open>combined_data['Metric']\<close>.
\<close>

definition draw_combined_boxplots ::
  "frame \<Rightarrow> string list \<Rightarrow> string list \<Rightarrow> string \<Rightarrow> string action" where
  "draw_combined_boxplots df columns_1 columns_2 title =
     seq (emit Figure)
     (bind (lift (getitems df columns_1)) (\<lambda>sub_1.
      bind (lift (melt sub_1 ''metric'' ''value'')) (\<lambda>floor_data.
      let floor_data = setitem_scalar floor_data ''type'' (Str ''Floor'') in
      bind (lift (getitems df columns_2)) (\<lambda>sub_2.
      bind (lift (melt sub_2 ''metric'' ''value'')) (\<lambda>ceiling_data.
      let ceiling_data = setitem_scalar ceiling_data ''type'' (Str ''Ceiling'');
          combined_data = pd_concat floor_data ceiling_data in
      bind (lift (getitem combined_data ''Metric'')) (\<lambda>m.
      bind (lift (series_str_replace m ''floor_'' [])) (\<lambda>m.
      bind (lift (series_str_replace m ''ceiling_'' [])) (\<lambda>m.
      let combined_data = setitem combined_data ''Metric'' m in
      seq (sns_boxplot ''metric'' ''value'' (Some ''type'') combined_data)
     (let title = ''Boxplots for '' @ title in
      seq (plot_setup title [] ''Degrees'')
     (save_show_return PlotterPy title))))))))))"

text \<open>
  \<open>draw_top_bottom_data(data, column, cnt=5, top=True)\<close>: the sort is ascending
  exactly when \<open>top\<close> (here \<open>top'\<close>) is true, and the chart is then titled \<open>best\<close>.
\<close>

definition draw_top_bottom_data ::
  "variant \<Rightarrow> frame \<Rightarrow> string \<Rightarrow> int \<Rightarrow> bool \<Rightarrow> string action" where
  "draw_top_bottom_data v df column cnt top' =
     seq (emit Figure)
     (bind (lift (sort_values df column top')) (\<lambda>sorted_df.
      let vals = head cnt sorted_df in
      seq (sns_barplot column ''name'' vals)
     (let order = (if top' then ''best'' else ''worst'');
          title = ''Top '' @ str_int cnt @ '' '' @ order @ '' results for '' @ column in
      seq (plot_setup title ''Degrees'' [])
     (save_show_return v title))))"

subsection \<open>The batch\<close>

text \<open>
  What the network gives: the answer to \<open>requests.head(url, timeout=5)\<close> (a status
  code, or no answer: connection error, timeout, bad URL, each a RequestException) and
  the result of \<open>pd.read_json(url)\<close> (a table or an exception).
\<close>

datatype head_response = Status nat | NoResponse

record env =
  http_head :: "string \<Rightarrow> head_response"
  read_json :: "string \<Rightarrow> exc + frame"

definition requests_head :: "env \<Rightarrow> string \<Rightarrow> nat \<Rightarrow> nat action" where
  "requests_head e url timeout =
     (case http_head e url of
        NoResponse \<Rightarrow> ([HttpHead url timeout], Inl RequestException)
      | Status code \<Rightarrow> ([HttpHead url timeout], Inr code))"

text \<open>\<open>response.raise_for_status()\<close>: an HTTPError for the codes 400 to 599.\<close>

definition raise_for_status :: "nat \<Rightarrow> exc + unit" where
  "raise_for_status code = (if 400 \<le> code \<and> code < 600 then Inl RequestException else Inr ())"

text \<open>\<open>__check_url(url)\<close>: only a RequestException is caught.\<close>

definition check_url :: "env \<Rightarrow> string \<Rightarrow> bool action" where
  "check_url e url =
     (case bind (requests_head e url 5) (\<lambda>response. lift (raise_for_status response)) of
        (evs, Inr _) \<Rightarrow> (evs, Inr True)
      | (evs, Inl RequestException) \<Rightarrow>
          (evs @ [PrintExc ''Failed to connect to URL: '' RequestException], Inr False)
      | (evs, Inl ex) \<Rightarrow> (evs, Inl ex))"

text \<open>The two lists \<open>draw_plots\<close> of \<open>src/plotter.py\<close> sets before its \<open>try\<close>.\<close>

definition floor_columns :: "string list" where
  "floor_columns = [''floor_min'', ''floor_mean'', ''floor_max'']"

definition ceiling_columns :: "string list" where
  "ceiling_columns = [''ceiling_min'', ''ceiling_mean'', ''ceiling_max'']"

text \<open>The chart calls of \<open>draw_plots\<close>, in the order of each file.\<close>

fun batch :: "variant \<Rightarrow> frame \<Rightarrow> string action list" where
  "batch PlotterPy df =
         [draw_scatterplot PlotterPy df ''gt_corners'' ''rb_corners'' True,
          draw_scatterplot PlotterPy df ''gt_corners'' ''mean'' False,
          draw_scatterplot PlotterPy df ''floor_mean'' ''ceiling_mean'' False,
          draw_histogram PlotterPy df ''mean'' ''auto'',
          draw_histogram PlotterPy df ''floor_mean'' ''auto'',
          draw_histogram PlotterPy df ''ceiling_mean'' ''auto'',
          draw_boxplots PlotterPy df [''min'', ''mean'', ''max''] ''stats'',
          draw_boxplots PlotterPy df [''mean'', ''floor_mean'', ''ceiling_mean''] ''means'',
          draw_boxplots PlotterPy df floor_columns ''floor stats'',
          draw_boxplots PlotterPy df ceiling_columns ''ceiling stats'',
          draw_combined_boxplots df floor_columns ceiling_columns ''Floor vs Ceiling'',
          draw_top_bottom_data PlotterPy df ''mean'' 10 True,
          draw_top_bottom_data PlotterPy df ''mean'' 10 False]"
| "batch ChartDrawerPy df =
     [draw_scatterplot ChartDrawerPy df ''gt_corners'' ''rb_corners'' True,
      draw_scatterplot ChartDrawerPy df ''floor_mean'' ''ceiling_mean'' False,
      draw_histogram ChartDrawerPy df ''mean'' ''auto'',
      draw_histogram ChartDrawerPy df ''floor_mean'' ''auto'',
      draw_histogram ChartDrawerPy df ''ceiling_mean'' ''auto'',
      draw_boxplots ChartDrawerPy df [''mean'', ''floor_mean'', ''ceiling_mean''] ''means'',
      draw_boxplots ChartDrawerPy df [''min'', ''mean'', ''max''] ''stats'',
      draw_top_bottom_data ChartDrawerPy df ''mean'' 10 True,
      draw_top_bottom_data ChartDrawerPy df ''mean'' 10 False]"

text \<open>
  The body of the \<open>try\<close>: each call's path is appended to \<open>plot_paths\<close>; the first
  exception ends the run, and the paths appended so far stay in the list.
\<close>

fun run_batch :: "string action list \<Rightarrow> string list \<Rightarrow> event list \<times> string list \<times> exc option" where
  "run_batch [] plot_paths = ([], plot_paths, None)"
| "run_batch (a # as) plot_paths =
     (case a of
        (evs, Inl ex) \<Rightarrow> (evs, plot_paths, Some ex)
      | (evs, Inr path) \<Rightarrow>
          (case run_batch as (plot_paths @ [path]) of (evs', r) \<Rightarrow> (evs @ evs', r)))"

text \<open>
  \<open>draw_plots(file_path)\<close>. \<open>except KeyError\<close> prints and falls through to
  \<open>return plot_paths\<close>; any other exception of a chart call leaves the method.
\<close>

definition draw_plots :: "variant \<Rightarrow> env \<Rightarrow> string \<Rightarrow> string list action" where
  "draw_plots v e file_path =
     bind (check_url e file_path) (\<lambda>ok.
     if \<not> ok then seq (emit (Print ''URL is not accessible'')) (ret [])
     else
       seq (emit (ReadJson file_path))
       (case read_json e file_path of
          Inl (ValueError m) \<Rightarrow>
            seq (emit (PrintExc ''Failed to read JSON: '' (ValueError m))) (ret [])
        | Inl ex \<Rightarrow> seq (emit (PrintExc ''An error occurred: '' ex)) (ret [])
        | Inr df \<Rightarrow>
            (case run_batch (batch v df) [] of
               (evs, plot_paths, None) \<Rightarrow> (evs, Inr plot_paths)
             | (evs, plot_paths, Some (KeyError k)) \<Rightarrow>
                 (evs @ [PrintExc ''Failed to draw plot: '' (KeyError k)], Inr plot_paths)
             | (evs, plot_paths, Some ex) \<Rightarrow> (evs, Inl ex))))"

subsection \<open>Construction\<close>

text \<open>
  The process-wide state \<open>__init__\<close> touches: the file system (which paths are
  directories, which are files) and matplotlib's \<open>rcParams\<close>. \<open>sns.set_style(name)\<close>
  writes seaborn's table of parameters for that style into \<open>rcParams\<close>; the table is
  seaborn's, so it is a parameter here.
\<close>

datatype node = Dir | File

datatype rcval = RcNum real | RcStr string | RcBool bool | RcPair real real

record world =
  fs :: "string \<rightharpoonup> node"
  rcParams :: "string \<rightharpoonup> rcval"

text \<open>\<open>os.makedirs(path, exist_ok=True)\<close> for a single path component.\<close>

definition makedirs :: "string \<Rightarrow> world \<Rightarrow> exc + world" where
  "makedirs path w =
     (case fs w path of
        Some File \<Rightarrow> Inl FileExistsError
      | _ \<Rightarrow> Inr (w\<lparr>fs := (fs w)(path \<mapsto> Dir)\<rparr>))"

definition rc_set :: "string \<Rightarrow> rcval \<Rightarrow> world \<Rightarrow> world" where
  "rc_set k x w = w\<lparr>rcParams := (rcParams w)(k \<mapsto> x)\<rparr>"

definition set_style :: "(string \<Rightarrow> (string \<times> rcval) list) \<Rightarrow> string \<Rightarrow> world \<Rightarrow> world" where
  "set_style axes_style name w = w\<lparr>rcParams := rcParams w ++ map_of (axes_style name)\<rparr>"

text \<open>\<open>__set_plot_params\<close>, the same four statements in both files.\<close>

definition set_plot_params :: "(string \<Rightarrow> (string \<times> rcval) list) \<Rightarrow> world \<Rightarrow> world" where
  "set_plot_params axes_style w =
     (let w = rc_set ''axes.titlesize'' (RcNum 18) w;
          w = rc_set ''axes.titlepad'' (RcNum 20) w;
          w = set_style axes_style ''whitegrid'' w;
          w = rc_set ''figure.figsize'' (RcPair 10 6) w
      in w)"

text \<open>\<open>__init__\<close>: the directory, then the parameters.\<close>

definition init :: "(string \<Rightarrow> (string \<times> rcval) list) \<Rightarrow> world \<Rightarrow> exc + world" where
  "init axes_style w =
     bindE (makedirs plot_dir w) (\<lambda>w. Inr (set_plot_params axes_style w))"

section \<open>Notions used in the statements\<close>

text \<open>The path under which a chart with the given title is saved.\<close>

definition chart_path :: "variant \<Rightarrow> string \<Rightarrow> string" where
  "chart_path v title = snd (save_plot_to_file v title)"

text \<open>A scalar that is a string: what arithmetic on it raises TypeError for.\<close>

fun is_SStr :: "scalar \<Rightarrow> bool" where
  "is_SStr (SStr _) = True"
| "is_SStr _ = False"

text \<open>
  A table with every column the charts read, two rows; and the answers of a network
  that serves a given table at every URL.
\<close>

definition full_table :: frame where
  "full_table =
     [(''name'', [Str ''room a'', Str ''room b'']),
      (''gt_corners'', [Num 4, Num 6]),
      (''rb_corners'', [Num 4, Num 5]),
      (''mean'', [Num 3, Num 1]),
      (''min'', [Num 1, Num 0]),
      (''max'', [Num 9, Num 2]),
      (''floor_min'', [Num 1, Num 0]),
      (''floor_mean'', [Num 2, Num 1]),
      (''floor_max'', [Num 5, Num 2]),
      (''ceiling_min'', [Num 2, Num 0]),
      (''ceiling_mean'', [Num 4, Num 1]),
      (''ceiling_max'', [Num 9, Num 2])]"

definition serving :: "frame \<Rightarrow> env" where
  "serving df = \<lparr>http_head = (\<lambda>_. Status 200), read_json = (\<lambda>_. Inr df)\<rparr>"


definition network :: "head_response \<Rightarrow> exc + frame \<Rightarrow> env" where
  "network h r = \<lparr>http_head = (\<lambda>_. h), read_json = (\<lambda>_. r)\<rparr>"

text \<open>A process that has set no parameter yet, in an empty working directory.\<close>

definition fresh_world :: world where
  "fresh_world = \<lparr>fs = Map.empty, rcParams = Map.empty\<rparr>"

definition grid_style :: "string \<Rightarrow> (string \<times> rcval) list" where
  "grid_style name = [(''axes.grid'', RcBool True), (''axes.facecolor'', RcStr ''white'')]"

text \<open>
  A well-formed table for the batch: the eleven columns the charts compute with hold
  numbers only, there is a \<open>name\<close> column, and all columns have the same length.
\<close>

definition numeric_column :: "frame \<Rightarrow> string \<Rightarrow> bool" where
  "numeric_column df c = (case map_of df c of Some s \<Rightarrow> list_all is_Num s | None \<Rightarrow> False)"

definition numeric_columns :: "string list" where
  "numeric_columns =
     [''gt_corners'', ''rb_corners'', ''mean'', ''min'', ''max'',
      ''floor_min'', ''floor_mean'', ''floor_max'',
      ''ceiling_min'', ''ceiling_mean'', ''ceiling_max'']"

definition well_formed :: "frame \<Rightarrow> bool" where
  "well_formed df \<longleftrightarrow>
     list_all (numeric_column df) numeric_columns
     \<and> ''name'' \<in> set (columns df)
     \<and> list_all (\<lambda>p. length (snd p) = nrows df) df"

text \<open>The table without one of its columns.\<close>

definition without :: "string \<Rightarrow> frame \<Rightarrow> frame" where
  "without c df = filter (\<lambda>p. fst p \<noteq> c) df"

text \<open>
  The paths of the first ten chart calls of \<open>src/plotter.py\<close>, and of the nine chart
  calls of \<open>src/ChartDrawer.py\<close>.
\<close>

definition extended_paths :: "string list" where
  "extended_paths =
     [''plots/Scatter_plot_gt_corners_vs_rb_corners.png'',
      ''plots/Scatter_plot_gt_corners_vs_mean.png'',
      ''plots/Scatter_plot_floor_mean_vs_ceiling_mean.png'',
      ''plots/Histogram_for_mean.png'',
      ''plots/Histogram_for_floor_mean.png'',
      ''plots/Histogram_for_ceiling_mean.png'',
      ''plots/Boxplots_for_stats.png'',
      ''plots/Boxplots_for_means.png'',
      ''plots/Boxplots_for_floor_stats.png'',
      ''plots/Boxplots_for_ceiling_stats.png'']"

definition basic_paths :: "string list" where
  "basic_paths =
     [''plots/Scatter plot gt_corners vs rb_corners.png'',
      ''plots/Scatter plot floor_mean vs ceiling_mean.png'',
      ''plots/Histogram for mean.png'',
      ''plots/Histogram for floor_mean.png'',
      ''plots/Histogram for ceiling_mean.png'',
      ''plots/Boxplots for means.png'',
      ''plots/Boxplots for stats.png'',
      ''plots/Top 10 best results for mean.png'',
      ''plots/Top 10 worst results for mean.png'']"

section \<open>Properties\<close>

subsection \<open>Sequencing\<close>

lemma bind_Inl [simp]: "bind (evs, Inl ex) f = (evs, Inl ex)"
  by (simp add: bind_def)

lemma bind_Inr [simp]: "bind (evs, Inr x) f = (evs @ fst (f x), snd (f x))"
  by (simp add: bind_def split: prod.splits)

lemma seq_Inl [simp]: "seq (evs, Inl ex) n = (evs, Inl ex)"
  by (simp add: seq_def)

lemma seq_Inr [simp]: "seq (evs, Inr u) n = (evs @ fst n, snd n)"
  by (simp add: seq_def)

lemma bind_lift_Inl [simp]: "bind (lift (Inl ex)) f = ([], Inl ex)"
  by (simp add: lift_def)

lemma bind_lift_Inr [simp]: "bind (lift (Inr x)) f = f x"
  by (simp add: lift_def)

lemma seq_emit [simp]: "seq (emit ev) n = (ev # fst n, snd n)"
  by (simp add: emit_def)

lemma seq_ret [simp]: "seq (ret u) n = n"
  by (simp add: ret_def)

lemma fst_ret [simp]: "fst (ret x) = []"
  by (simp add: ret_def)

lemma snd_ret [simp]: "snd (ret x) = Inr x"
  by (simp add: ret_def)

lemma fst_emit [simp]: "fst (emit ev) = [ev]"
  by (simp add: emit_def)

lemma snd_emit [simp]: "snd (emit ev) = Inr ()"
  by (simp add: emit_def)

subsection \<open>File names\<close>

lemma str_replace_char:
  "str_replace [a] [b] s = map (\<lambda>c. if c = a then b else c) s"
  by (induction s) auto

text \<open>
  Claim C7. For every chart title, \<open>src/plotter.py\<close> saves the chart under the plot
  directory joined with the title in which every space is an underscore, plus
  \<open>.png\<close>; \<open>src/ChartDrawer.py\<close> joins the title as it is, spaces included. The
  title \<open>Scatter plot a vs b\<close> gives \<open>plots/Scatter_plot_a_vs_b.png\<close> in the first
  and \<open>plots/Scatter plot a vs b.png\<close> in the second.
\<close>

theorem save_plot_to_file_names:
  "save_plot_to_file PlotterPy title =
     ([SaveFig (os_path_join ''plots''
         (map (\<lambda>c. if c = CHR '' '' then CHR ''_'' else c) title) @ ''.png'') 300],
      os_path_join ''plots''
         (map (\<lambda>c. if c = CHR '' '' then CHR ''_'' else c) title) @ ''.png'')
   \<and> save_plot_to_file ChartDrawerPy title =
     ([SaveFig (os_path_join ''plots'' title @ ''.png'') 300],
      os_path_join ''plots'' title @ ''.png'')
   \<and> snd (save_plot_to_file PlotterPy ''Scatter plot a vs b'') =
       ''plots/Scatter_plot_a_vs_b.png''
   \<and> snd (save_plot_to_file ChartDrawerPy ''Scatter plot a vs b'') =
       ''plots/Scatter plot a vs b.png''"
proof (intro conjI)
  show "snd (save_plot_to_file PlotterPy ''Scatter plot a vs b'') =
        ''plots/Scatter_plot_a_vs_b.png''"
    by code_simp
  show "snd (save_plot_to_file ChartDrawerPy ''Scatter plot a vs b'') =
        ''plots/Scatter plot a vs b.png''"
    by code_simp
qed (simp_all add: save_plot_to_file_def str_replace_char plot_dir_def Let_def)

subsection \<open>The chart methods, call by call\<close>

lemma save_plot_to_file_eq:
  "save_plot_to_file v title = ([SaveFig (chart_path v title) 300], chart_path v title)"
  by (simp add: save_plot_to_file_def chart_path_def Let_def)

lemma save_show_return_eq [simp]:
  "save_show_return v title =
     ([SaveFig (chart_path v title) 300, Show, Close], Inr (chart_path v title))"
  by (simp add: save_show_return_def save_plot_to_file_eq show_and_close_plot_def)

lemma plot_setup_eq [simp]:
  "plot_setup t x y = ([SetTitle t, XLabel x, YLabel y], Inr ())"
  by (simp add: plot_setup_def)

lemma draw_histogram_missing:
  "map_of df c = None \<Longrightarrow> draw_histogram v df c bins = ([Figure], Inl (KeyError [c]))"
  by (simp add: draw_histogram_def getitem_def)

lemma draw_histogram_present:
  "map_of df c = Some s \<Longrightarrow>
   draw_histogram v df c bins =
     ([Figure, HistPlot s c bins, SetTitle (''Histogram for '' @ c), XLabel ''Degrees'',
       YLabel ''Frequency'', SaveFig (chart_path v (''Histogram for '' @ c)) 300, Show, Close],
      Inr (chart_path v (''Histogram for '' @ c)))"
  by (simp add: draw_histogram_def getitem_def sns_histplot_def Let_def)

lemma sns_scatterplot_eq:
  "sns_scatterplot x y df z =
     (case map_of df x of None \<Rightarrow> ([], Inl (ValueError x))
      | Some sx \<Rightarrow> (case map_of df y of None \<Rightarrow> ([], Inl (ValueError y))
          | Some sy \<Rightarrow> ([ScatterPlot sx sy z], Inr ())))"
  by (simp add: sns_scatterplot_def sns_lookup_def emit_def split: option.splits)

lemma draw_scatterplot_noline:
  "draw_scatterplot v df x y False =
     (case map_of df x of
        None \<Rightarrow> ([Figure, SetTitle (''Scatter plot '' @ x @ '' vs '' @ y), XLabel x, YLabel y],
                  Inl (ValueError x))
      | Some sx \<Rightarrow>
         (case map_of df y of
            None \<Rightarrow> ([Figure, SetTitle (''Scatter plot '' @ x @ '' vs '' @ y), XLabel x, YLabel y],
                      Inl (ValueError y))
          | Some sy \<Rightarrow>
              ([Figure, SetTitle (''Scatter plot '' @ x @ '' vs '' @ y), XLabel x, YLabel y,
                ScatterPlot sx sy 2,
                SaveFig (chart_path v (''Scatter plot '' @ x @ '' vs '' @ y)) 300, Show, Close],
               Inr (chart_path v (''Scatter plot '' @ x @ '' vs '' @ y)))))"
  by (simp add: draw_scatterplot_def sns_scatterplot_eq Let_def split: option.splits)

lemma series_max_numeric:
  "\<not> list_ex is_Str s \<Longrightarrow> \<exists>m. series_max s = Inr m \<and> \<not> is_SStr m"
  by (auto simp: series_max_def split: list.splits)

lemma series_min_numeric:
  "\<not> list_ex is_Str s \<Longrightarrow> \<exists>m. series_min s = Inr m \<and> \<not> is_SStr m"
  by (auto simp: series_min_def split: list.splits)

lemma py_max_numeric:
  "\<not> is_SStr a \<Longrightarrow> \<not> is_SStr b \<Longrightarrow> \<exists>m. py_max a b = Inr m \<and> \<not> is_SStr m"
  by (cases a; cases b) (auto simp: py_max_def bindE_def)

lemma py_min_numeric:
  "\<not> is_SStr a \<Longrightarrow> \<not> is_SStr b \<Longrightarrow> \<exists>m. py_min a b = Inr m \<and> \<not> is_SStr m"
  by (cases a; cases b) (auto simp: py_min_def bindE_def)

lemma py_mul_numeric:
  "\<not> is_SStr a \<Longrightarrow> \<exists>m. py_mul a k = Inr m"
  by (cases a) auto

lemma max_limit_numeric:
  assumes "map_of df x = Some sx" "map_of df y = Some sy"
    "\<not> list_ex is_Str sx" "\<not> list_ex is_Str sy"
  shows "\<exists>hi. max_limit df x y = Inr hi"
proof -
  obtain mx where mx: "series_max sx = Inr mx" "\<not> is_SStr mx"
    using series_max_numeric [OF assms(3)] by blast
  obtain my where my: "series_max sy = Inr my" "\<not> is_SStr my"
    using series_max_numeric [OF assms(4)] by blast
  obtain m where m: "py_max mx my = Inr m" "\<not> is_SStr m"
    using py_max_numeric [OF mx(2) my(2)] by blast
  obtain hi where "py_mul m (11 / 10) = Inr hi"
    using py_mul_numeric [OF m(2)] by blast
  with assms mx my m show ?thesis
    by (simp add: max_limit_def getitem_def bindE_def)
qed

lemma min_limit_numeric:
  assumes "map_of df x = Some sx" "map_of df y = Some sy"
    "\<not> list_ex is_Str sx" "\<not> list_ex is_Str sy"
  shows "\<exists>lo. min_limit df x y = Inr lo"
proof -
  obtain mx where mx: "series_min sx = Inr mx" "\<not> is_SStr mx"
    using series_min_numeric [OF assms(3)] by blast
  obtain my where my: "series_min sy = Inr my" "\<not> is_SStr my"
    using series_min_numeric [OF assms(4)] by blast
  obtain m where m: "py_min mx my = Inr m" "\<not> is_SStr m"
    using py_min_numeric [OF mx(2) my(2)] by blast
  obtain lo where "py_mul m (9 / 10) = Inr lo"
    using py_mul_numeric [OF m(2)] by blast
  with assms mx my m show ?thesis
    by (simp add: min_limit_def getitem_def bindE_def)
qed

lemma draw_scatterplot_line:
  assumes "max_limit df x y = Inr hi" "min_limit df x y = Inr lo"
    "map_of df x = Some sx" "map_of df y = Some sy"
  shows "draw_scatterplot v df x y True =
     ([Figure, PlotLine [lo, hi] [lo, hi] ''r--'' 1 1,
       SetTitle (''Scatter plot '' @ x @ '' vs '' @ y), XLabel x, YLabel y,
       ScatterPlot sx sy 2,
       SaveFig (chart_path v (''Scatter plot '' @ x @ '' vs '' @ y)) 300, Show, Close],
      Inr (chart_path v (''Scatter plot '' @ x @ '' vs '' @ y)))"
  using assms by (simp add: draw_scatterplot_def sns_scatterplot_eq Let_def emit_def)

lemma draw_scatterplot_line_missing_x:
  "map_of df x = None \<Longrightarrow> draw_scatterplot v df x y True = ([Figure], Inl (KeyError [x]))"
  by (simp add: draw_scatterplot_def Let_def max_limit_def getitem_def bindE_def)

lemma series_max_Num:
  assumes "xs \<noteq> []"
  shows "series_max (map Num xs) = Inr (SNum (Max (set xs)))"
proof -
  obtain a as where xs: "xs = a # as" using assms by (cases xs) auto
  have 1: "\<not> list_ex is_Str (map Num xs)" by (simp add: list_ex_iff)
  have 2: "filter (\<lambda>c. c \<noteq> NaN) (map Num xs) = map Num xs"
    by (simp add: filter_map comp_def)
  have 3: "map num_of (map Num as) = as" by (simp add: comp_def)
  have "series_max (map Num xs) = Inr (SNum (fold max as a))"
    unfolding series_max_def using 1 2 3 by (simp add: xs)
  then show ?thesis using Max.set_eq_fold [of a as] by (simp add: xs)
qed

lemma series_min_Num:
  assumes "xs \<noteq> []"
  shows "series_min (map Num xs) = Inr (SNum (Min (set xs)))"
proof -
  obtain a as where xs: "xs = a # as" using assms by (cases xs) auto
  have 1: "\<not> list_ex is_Str (map Num xs)" by (simp add: list_ex_iff)
  have 2: "filter (\<lambda>c. c \<noteq> NaN) (map Num xs) = map Num xs"
    by (simp add: filter_map comp_def)
  have 3: "map num_of (map Num as) = as" by (simp add: comp_def)
  have "series_min (map Num xs) = Inr (SNum (fold min as a))"
    unfolding series_min_def using 1 2 3 by (simp add: xs)
  then show ?thesis using Min.set_eq_fold [of a as] by (simp add: xs)
qed

lemma py_max_SNum: "py_max (SNum a) (SNum b) = Inr (SNum (max a b))"
  by (auto simp: py_max_def bindE_def max_def)

lemma py_min_SNum: "py_min (SNum a) (SNum b) = Inr (SNum (min a b))"
  by (auto simp: py_min_def bindE_def min_def)

lemma max_limit_Num:
  assumes "map_of df x = Some (map Num xs)" "map_of df y = Some (map Num ys)"
    "xs \<noteq> []" "ys \<noteq> []"
  shows "max_limit df x y = Inr (SNum (max (Max (set xs)) (Max (set ys)) * (11 / 10)))"
  using assms
  by (simp add: max_limit_def getitem_def bindE_def series_max_Num py_max_SNum)

lemma min_limit_Num:
  assumes "map_of df x = Some (map Num xs)" "map_of df y = Some (map Num ys)"
    "xs \<noteq> []" "ys \<noteq> []"
  shows "min_limit df x y = Inr (SNum (min (Min (set xs)) (Min (set ys)) * (9 / 10)))"
  using assms
  by (simp add: min_limit_def getitem_def bindE_def series_min_Num py_min_SNum)

subsection \<open>Box plots\<close>

lemma melt_cases:
  "melt df a b = Inl (ValueError b) \<or>
   melt df a b = Inr [(a, concat (map (\<lambda>(c, s). replicate (length s) (Str c)) df)),
                      (b, concat (map snd df))]"
  by (simp add: melt_def)

lemma getitems_present:
  "set cs \<subseteq> set (columns df) \<Longrightarrow>
   getitems df cs = Inr (map (\<lambda>c. (c, case map_of df c of Some s \<Rightarrow> s | None \<Rightarrow> [])) cs)"
  by (auto simp: getitems_def Let_def filter_empty_conv)

lemma getitems_missing:
  "\<not> set cs \<subseteq> set (columns df) \<Longrightarrow>
   getitems df cs = Inl (KeyError (filter (\<lambda>c. c \<notin> set (columns df)) cs))"
  by (auto simp: getitems_def Let_def filter_empty_conv)

lemma columns_getitems:
  "getitems df cs = Inr sub \<Longrightarrow> columns sub = cs"
  by (auto simp: getitems_def Let_def columns_def comp_def split: if_splits)

lemma draw_boxplots_missing:
  "\<not> set cs \<subseteq> set (columns df) \<Longrightarrow>
   draw_boxplots v df cs t =
     ([Figure], Inl (KeyError (filter (\<lambda>c. c \<notin> set (columns df)) cs)))"
  by (simp add: draw_boxplots_def getitems_missing)

lemma draw_boxplots_present:
  assumes "set cs \<subseteq> set (columns df)" "''value'' \<notin> set cs"
  shows "\<exists>long. draw_boxplots v df cs t =
     ([Figure, BoxPlot ''variable'' ''value'' None long,
       SetTitle (''Boxplots for '' @ t), XLabel [], YLabel ''Degrees'',
       SaveFig (chart_path v (''Boxplots for '' @ t)) 300, Show, Close],
      Inr (chart_path v (''Boxplots for '' @ t)))"
proof -
  obtain sub where sub: "getitems df cs = Inr sub" "columns sub = cs"
    using assms(1) getitems_present columns_getitems by blast
  from sub assms(2) obtain a b where
    m: "melt sub ''variable'' ''value'' = Inr [(''variable'', a), (''value'', b)]"
    by (simp add: melt_def)
  show ?thesis
    using sub m
    by (simp add: draw_boxplots_def Let_def sns_boxplot_def sns_lookup_def emit_def)
qed

lemma Metric_not_combined:
  "map_of (pd_concat (setitem_scalar [(''metric'', a), (''value'', b)] ''type'' u)
                     (setitem_scalar [(''metric'', c), (''value'', d)] ''type'' w))
     ''Metric'' = None"
  by (simp add: pd_concat_def setitem_scalar_def columns_def map_of_eq_None_iff)

lemma draw_combined_boxplots_raises:
  "\<exists>ex. draw_combined_boxplots df c1 c2 t = ([Figure], Inl ex)"
proof (cases "getitems df c1")
  case (Inl ex)
  then show ?thesis by (simp add: draw_combined_boxplots_def)
next
  case sub1: (Inr sub_1)
  show ?thesis
  proof (cases "melt sub_1 ''metric'' ''value''")
    case (Inl ex)
    with sub1 show ?thesis by (simp add: draw_combined_boxplots_def)
  next
    case m1: (Inr floor_data)
    show ?thesis
    proof (cases "getitems df c2")
      case (Inl ex)
      with sub1 m1 show ?thesis by (simp add: draw_combined_boxplots_def)
    next
      case sub2: (Inr sub_2)
      show ?thesis
      proof (cases "melt sub_2 ''metric'' ''value''")
        case (Inl ex)
        with sub1 m1 sub2 show ?thesis by (simp add: draw_combined_boxplots_def)
      next
        case m2: (Inr ceiling_data)
        from m1 melt_cases [of sub_1 "''metric''" "''value''"]
        obtain a b where f: "floor_data = [(''metric'', a), (''value'', b)]" by auto
        from m2 melt_cases [of sub_2 "''metric''" "''value''"]
        obtain c d where g: "ceiling_data = [(''metric'', c), (''value'', d)]" by auto
        show ?thesis
          using sub1 m1 sub2 m2
          by (simp add: draw_combined_boxplots_def Let_def getitem_def f g Metric_not_combined)
      qed
    qed
  qed
qed

lemma draw_combined_boxplots_Metric:
  assumes "set c1 \<subseteq> set (columns df)" "set c2 \<subseteq> set (columns df)"
    "''value'' \<notin> set c1" "''value'' \<notin> set c2"
  shows "draw_combined_boxplots df c1 c2 t = ([Figure], Inl (KeyError [''Metric'']))"
proof -
  obtain s1 where s1: "getitems df c1 = Inr s1" "columns s1 = c1"
    using assms(1) getitems_present columns_getitems by blast
  obtain s2 where s2: "getitems df c2 = Inr s2" "columns s2 = c2"
    using assms(2) getitems_present columns_getitems by blast
  from s1 assms(3) obtain a b where
    m1: "melt s1 ''metric'' ''value'' = Inr [(''metric'', a), (''value'', b)]"
    by (simp add: melt_def)
  from s2 assms(4) obtain c d where
    m2: "melt s2 ''metric'' ''value'' = Inr [(''metric'', c), (''value'', d)]"
    by (simp add: melt_def)
  show ?thesis
    using s1 s2 m1 m2
    by (simp add: draw_combined_boxplots_def Let_def getitem_def Metric_not_combined)
qed

text \<open>
  Claim C3. For every table that has the three floor columns and the three ceiling
  columns, \<open>draw_combined_boxplots\<close> of \<open>src/plotter.py\<close> on those columns raises
  KeyError for the key \<open>Metric\<close>, right after opening the figure: the melted tables
  name the column \<open>metric\<close>. And for no table, no column lists and no title does the
  method return a path.
\<close>

theorem draw_combined_boxplots_KeyError:
  assumes "set floor_columns \<subseteq> set (columns df)"
    and "set ceiling_columns \<subseteq> set (columns df)"
  shows "draw_combined_boxplots df floor_columns ceiling_columns title =
           ([Figure], Inl (KeyError [''Metric'']))
         \<and> (\<forall>df' c1 c2 t p. snd (draw_combined_boxplots df' c1 c2 t) \<noteq> Inr p)"
proof
  show "draw_combined_boxplots df floor_columns ceiling_columns title =
          ([Figure], Inl (KeyError [''Metric'']))"
    by (rule draw_combined_boxplots_Metric [OF assms])
       (simp_all add: floor_columns_def ceiling_columns_def)
  show "\<forall>df' c1 c2 t p. snd (draw_combined_boxplots df' c1 c2 t) \<noteq> Inr p"
  proof (intro allI)
    fix df' c1 c2 t p
    obtain ex where "draw_combined_boxplots df' c1 c2 t = ([Figure], Inl ex)"
      using draw_combined_boxplots_raises by blast
    then show "snd (draw_combined_boxplots df' c1 c2 t) \<noteq> Inr p" by simp
  qed
qed

theorem draw_combined_boxplots_KeyError_witness:
  "set floor_columns \<subseteq> set (columns full_table)
   \<and> set ceiling_columns \<subseteq> set (columns full_table)
   \<and> draw_combined_boxplots full_table floor_columns ceiling_columns ''Floor vs Ceiling'' =
       ([Figure], Inl (KeyError [''Metric'']))"
proof -
  have f: "set floor_columns \<subseteq> set (columns full_table)"
    by (simp add: floor_columns_def columns_def full_table_def)
  have c: "set ceiling_columns \<subseteq> set (columns full_table)"
    by (simp add: ceiling_columns_def columns_def full_table_def)
  from draw_combined_boxplots_KeyError [OF f c, of "''Floor vs Ceiling''"] f c
  show ?thesis by simp
qed

subsection \<open>The reference line of a scatter plot\<close>

text \<open>
  Claim C8. For every table whose columns \<open>x\<close> and \<open>y\<close> hold numbers (at least one
  each), \<open>draw_scatterplot\<close> with the reference line asked for draws, in both files,
  one dashed line (\<open>r--\<close>) from \<open>0.9 * min (min x) (min y)\<close> to
  \<open>1.1 * max (max x) (max y)\<close> on both axes with z-order 1, and then the points with
  z-order 2, so the line lies beneath the points.
\<close>

theorem draw_scatterplot_reference_line:
  assumes "map_of df x = Some (map Num xs)" and "map_of df y = Some (map Num ys)"
    and "xs \<noteq> []" and "ys \<noteq> []"
  shows "draw_scatterplot v df x y True =
     ([Figure,
       PlotLine [SNum (min (Min (set xs)) (Min (set ys)) * (9 / 10)),
                 SNum (max (Max (set xs)) (Max (set ys)) * (11 / 10))]
                [SNum (min (Min (set xs)) (Min (set ys)) * (9 / 10)),
                 SNum (max (Max (set xs)) (Max (set ys)) * (11 / 10))] ''r--'' 1 1,
       SetTitle (''Scatter plot '' @ x @ '' vs '' @ y), XLabel x, YLabel y,
       ScatterPlot (map Num xs) (map Num ys) 2,
       SaveFig (chart_path v (''Scatter plot '' @ x @ '' vs '' @ y)) 300, Show, Close],
      Inr (chart_path v (''Scatter plot '' @ x @ '' vs '' @ y)))"
  by (rule draw_scatterplot_line
        [OF max_limit_Num [OF assms] min_limit_Num [OF assms] assms(1) assms(2)])

theorem draw_scatterplot_reference_line_witness:
  "map_of full_table ''gt_corners'' = Some (map Num [4, 6])
   \<and> map_of full_table ''rb_corners'' = Some (map Num [4, 5])
   \<and> fst (draw_scatterplot PlotterPy full_table ''gt_corners'' ''rb_corners'' True) ! 1 =
       PlotLine [SNum (18 / 5), SNum (33 / 5)] [SNum (18 / 5), SNum (33 / 5)] ''r--'' 1 1
   \<and> fst (draw_scatterplot PlotterPy full_table ''gt_corners'' ''rb_corners'' True) ! 5 =
       ScatterPlot [Num 4, Num 6] [Num 4, Num 5] 2"
proof -
  have x: "map_of full_table ''gt_corners'' = Some (map Num [4, 6])"
    by (simp add: full_table_def)
  have y: "map_of full_table ''rb_corners'' = Some (map Num [4, 5])"
    by (simp add: full_table_def)
  have nx: "[4, 6 :: real] \<noteq> []" by simp
  have ny: "[4, 5 :: real] \<noteq> []" by simp
  show ?thesis
    using draw_scatterplot_reference_line [OF x y nx ny, of PlotterPy] x y
    by simp
qed

subsection \<open>Reachability and parsing\<close>

lemma check_url_False_iff:
  "snd (check_url e url) = Inr False \<longleftrightarrow>
     http_head e url = NoResponse \<or>
     (\<exists>code. http_head e url = Status code \<and> 400 \<le> code \<and> code < 600)"
  by (auto simp: check_url_def requests_head_def raise_for_status_def lift_def
           split: head_response.splits)

lemma check_url_False:
  "snd (check_url e url) = Inr False \<Longrightarrow>
   check_url e url =
     ([HttpHead url 5, PrintExc ''Failed to connect to URL: '' RequestException], Inr False)"
  by (auto simp: check_url_def requests_head_def raise_for_status_def lift_def
           split: head_response.splits if_splits)

lemma check_url_True:
  "snd (check_url e url) = Inr True \<Longrightarrow> check_url e url = ([HttpHead url 5], Inr True)"
  by (auto simp: check_url_def requests_head_def raise_for_status_def lift_def
           split: head_response.splits if_splits)

lemma check_url_total: "\<exists>ok. snd (check_url e url) = Inr ok"
  by (auto simp: check_url_def requests_head_def raise_for_status_def lift_def
           split: head_response.splits if_splits)

text \<open>
  Claim C5. Whenever \<open>__check_url\<close> answers False (no response to the HEAD request,
  or a status code from 400 to 599), \<open>draw_plots\<close> of either file makes exactly three
  calls, the HEAD request and two prints, and returns the empty list: no
  \<open>pd.read_json\<close>, no chart call, no exception.
\<close>

theorem draw_plots_unreachable:
  assumes "snd (check_url e url) = Inr False"
  shows "draw_plots v e url =
     ([HttpHead url 5, PrintExc ''Failed to connect to URL: '' RequestException,
       Print ''URL is not accessible''], Inr [])"
  by (simp add: draw_plots_def check_url_False [OF assms])

theorem draw_plots_unreachable_witness:
  "snd (check_url (network (Status 404) (Inr full_table)) ''http://host/data.json'') = Inr False
   \<and> draw_plots PlotterPy (network (Status 404) (Inr full_table)) ''http://host/data.json'' =
     ([HttpHead ''http://host/data.json'' 5,
       PrintExc ''Failed to connect to URL: '' RequestException,
       Print ''URL is not accessible''], Inr [])"
proof -
  have h: "snd (check_url (network (Status 404) (Inr full_table)) ''http://host/data.json'')
           = Inr False"
    by (simp add: check_url_def requests_head_def raise_for_status_def lift_def network_def)
  from draw_plots_unreachable [OF h, of PlotterPy] h show ?thesis by simp
qed

text \<open>
  Claim C6. Whenever the URL is reachable and \<open>pd.read_json\<close> raises, be it a
  ValueError (malformed JSON) or any other exception, \<open>draw_plots\<close> of either file
  prints the error (\<open>Failed to read JSON\<close> for a ValueError, \<open>An error occurred\<close>
  otherwise) and returns the empty list; no chart call is made.
\<close>

theorem draw_plots_unparsable:
  assumes "snd (check_url e url) = Inr True" and "read_json e url = Inl ex"
  shows "draw_plots v e url =
     ([HttpHead url 5, ReadJson url,
       PrintExc (case ex of ValueError m \<Rightarrow> ''Failed to read JSON: ''
                          | _ \<Rightarrow> ''An error occurred: '') ex],
      Inr [])"
  using assms(2)
  by (cases ex) (simp_all add: draw_plots_def check_url_True [OF assms(1)])

theorem draw_plots_unparsable_witness:
  "snd (check_url (network (Status 200) (Inl (ValueError ''Expected object or value'')))
         ''http://host/data.json'') = Inr True
   \<and> read_json (network (Status 200) (Inl (ValueError ''Expected object or value'')))
         ''http://host/data.json'' = Inl (ValueError ''Expected object or value'')
   \<and> draw_plots ChartDrawerPy (network (Status 200) (Inl (ValueError ''Expected object or value'')))
         ''http://host/data.json'' =
     ([HttpHead ''http://host/data.json'' 5, ReadJson ''http://host/data.json'',
       PrintExc ''Failed to read JSON: '' (ValueError ''Expected object or value'')], Inr [])"
proof -
  let ?e = "network (Status 200) (Inl (ValueError ''Expected object or value''))"
  have h: "snd (check_url ?e ''http://host/data.json'') = Inr True"
    by (simp add: check_url_def requests_head_def raise_for_status_def lift_def network_def)
  have r: "read_json ?e ''http://host/data.json'' = Inl (ValueError ''Expected object or value'')"
    by (simp add: network_def)
  from draw_plots_unparsable [OF h r, of ChartDrawerPy] h r show ?thesis by simp
qed

subsection \<open>Construction twice\<close>

lemma set_plot_params_eq:
  "set_plot_params sty w =
     w\<lparr>rcParams := ((rcParams w)(''axes.titlesize'' \<mapsto> RcNum 18, ''axes.titlepad'' \<mapsto> RcNum 20)
          ++ map_of (sty ''whitegrid''))(''figure.figsize'' \<mapsto> RcPair 10 6)\<rparr>"
  by (simp add: set_plot_params_def rc_set_def set_style_def Let_def)

lemma rc_defaults_idem:
  "((((r(a \<mapsto> x, b \<mapsto> y) ++ m)(c \<mapsto> z))(a \<mapsto> x, b \<mapsto> y)) ++ m)(c \<mapsto> z) =
   (r(a \<mapsto> x, b \<mapsto> y) ++ m)(c \<mapsto> z)"
  by (rule ext) (simp add: map_add_def split: option.splits)

lemma set_plot_params_idem:
  "set_plot_params sty (set_plot_params sty w) = set_plot_params sty w"
  by (simp add: set_plot_params_eq rc_defaults_idem)

lemma fs_set_plot_params [simp]: "fs (set_plot_params sty w) = fs w"
  by (simp add: set_plot_params_def rc_set_def set_style_def Let_def)

text \<open>
  Claim C10. If constructing a Plotter succeeds and leaves the process in state
  \<open>w'\<close>, constructing another one in \<open>w'\<close> succeeds and leaves \<open>w'\<close> unchanged,
  whatever seaborn's style table holds. In \<open>w'\<close> the figure size is (10, 6), the
  whitegrid table's entries are set, and title size 18 and title padding 20 are set
  unless the style table overrides them; \<open>plots\<close> is a directory.
\<close>

theorem init_idempotent:
  assumes "init sty w = Inr w'"
  shows "init sty w' = Inr w'
     \<and> rcParams w' ''figure.figsize'' = Some (RcPair 10 6)
     \<and> fs w' plot_dir = Some Dir
     \<and> (\<forall>k x. map_of (sty ''whitegrid'') k = Some x \<and> k \<noteq> ''figure.figsize''
          \<longrightarrow> rcParams w' k = Some x)
     \<and> (map_of (sty ''whitegrid'') ''axes.titlesize'' = None
          \<longrightarrow> rcParams w' ''axes.titlesize'' = Some (RcNum 18))
     \<and> (map_of (sty ''whitegrid'') ''axes.titlepad'' = None
          \<longrightarrow> rcParams w' ''axes.titlepad'' = Some (RcNum 20))"
proof -
  from assms have nf: "fs w plot_dir \<noteq> Some File"
    by (auto simp: init_def makedirs_def bindE_def split: option.splits node.splits)
  with assms have w': "w' = set_plot_params sty (w\<lparr>fs := (fs w)(plot_dir \<mapsto> Dir)\<rparr>)"
    by (auto simp: init_def makedirs_def bindE_def split: option.splits node.splits)
  have d: "fs w' plot_dir = Some Dir" by (simp add: w')
  have "w'\<lparr>fs := (fs w')(plot_dir \<mapsto> Dir)\<rparr> = w'"
    using d by (simp add: fun_upd_idem)
  then have "init sty w' = Inr (set_plot_params sty w')"
    using d by (simp add: init_def makedirs_def bindE_def)
  then have 1: "init sty w' = Inr w'"
    by (simp add: w' set_plot_params_idem)
  have 2: "rcParams w' ''figure.figsize'' = Some (RcPair 10 6)"
    by (simp add: w' set_plot_params_def rc_set_def set_style_def Let_def)
  have 3: "\<forall>k x. map_of (sty ''whitegrid'') k = Some x \<and> k \<noteq> ''figure.figsize''
          \<longrightarrow> rcParams w' k = Some x"
    by (simp add: w' set_plot_params_def rc_set_def set_style_def Let_def map_add_def)
  have 4: "map_of (sty ''whitegrid'') ''axes.titlesize'' = None
          \<longrightarrow> rcParams w' ''axes.titlesize'' = Some (RcNum 18)"
    by (simp add: w' set_plot_params_def rc_set_def set_style_def Let_def map_add_def)
  have 5: "map_of (sty ''whitegrid'') ''axes.titlepad'' = None
          \<longrightarrow> rcParams w' ''axes.titlepad'' = Some (RcNum 20)"
    by (simp add: w' set_plot_params_def rc_set_def set_style_def Let_def map_add_def)
  from 1 2 d 3 4 5 show ?thesis by blast
qed

theorem init_idempotent_witness:
  "\<exists>w'. init grid_style fresh_world = Inr w' \<and> init grid_style w' = Inr w'
     \<and> rcParams w' ''axes.titlesize'' = Some (RcNum 18)
     \<and> rcParams w' ''axes.titlepad'' = Some (RcNum 20)
     \<and> rcParams w' ''axes.grid'' = Some (RcBool True)"
proof -
  obtain w' where w': "init grid_style fresh_world = Inr w'"
    by (simp add: init_def makedirs_def bindE_def fresh_world_def)
  have g: "map_of (grid_style ''whitegrid'') ''axes.grid'' = Some (RcBool True)"
    "map_of (grid_style ''whitegrid'') ''axes.titlesize'' = None"
    "map_of (grid_style ''whitegrid'') ''axes.titlepad'' = None"
    by (simp_all add: grid_style_def)
  from init_idempotent [OF w'] g w' show ?thesis by auto
qed

subsection \<open>Sorting rows and taking the first\<close>

lemma argsort_by_set [simp]: "set (argsort_by key idx asc) = set idx"
  by (simp add: argsort_by_def)

lemma argsort_by_distinct [simp]: "distinct (argsort_by key idx asc) = distinct idx"
  by (simp add: argsort_by_def)

lemma argsort_by_length [simp]: "length (argsort_by key idx asc) = length idx"
  by (simp add: argsort_by_def)

lemma argsort_by_sorted:
  "sorted_wrt (\<lambda>i j. if asc then key i \<le> key j else key j \<le> key i) (argsort_by key idx asc)"
proof (cases asc)
  case True
  have "sorted (map key (sort_key key idx))" by simp
  then have "sorted_wrt (\<lambda>i j. key i \<le> key j) (sort_key key idx)"
    by (simp add: sorted_wrt_map)
  with True show ?thesis by (simp add: argsort_by_def)
next
  case False
  have "sorted (map key (sort_key key (rev idx)))" by simp
  then have "sorted_wrt (\<lambda>i j. key i \<le> key j) (sort_key key (rev idx))"
    by (simp add: sorted_wrt_map)
  then have "sorted_wrt (\<lambda>i j. key j \<le> key i) (rev (sort_key key (rev idx)))"
    by (simp add: sorted_wrt_rev)
  with False show ?thesis by (simp add: argsort_by_def)
qed

lemma sorted_wrt_take_drop:
  assumes "sorted_wrt R s" "i \<in> set (take k s)" "j \<in> set s" "j \<notin> set (take k s)"
  shows "R i j"
proof -
  have "set s = set (take k s) \<union> set (drop k s)"
    by (metis append_take_drop_id set_append)
  with assms(3,4) have j: "j \<in> set (drop k s)" by blast
  have "sorted_wrt R (take k s @ drop k s)" using assms(1) by simp
  then show ?thesis using assms(2) j by (simp only: sorted_wrt_append)
qed

lemma nargsort_Num:
  "nargsort (map Num vals) asc =
     Inr (argsort_by (\<lambda>i. num_of (map Num vals ! i)) [0..<length vals] asc)"
proof -
  have 1: "filter (\<lambda>i. map Num vals ! i \<noteq> NaN) [0..<length vals] = [0..<length vals]"
    by (simp add: filter_id_conv)
  have 2: "filter (\<lambda>i. map Num vals ! i = NaN) [0..<length vals] = []"
    by (simp add: filter_empty_conv)
  have 3: "filter (\<lambda>c. c \<noteq> NaN) (map Num vals) = map Num vals"
    by (simp add: filter_id_conv)
  have 4: "list_all is_Num (map Num vals)"
    by (simp add: list_all_iff)
  show ?thesis
    unfolding nargsort_def Let_def length_map 1 2 3 using 4 by simp
qed

lemma slice_to_map: "slice_to n (map f xs) = map f (slice_to n xs)"
  by (simp add: slice_to_def take_map)

lemma head_take_rows: "head n (take_rows df idx) = take_rows df (slice_to n idx)"
  by (simp add: head_def take_rows_def slice_to_map split_def)

lemma map_of_take_rows:
  "map_of (take_rows df idx) c = map_option (\<lambda>s. map (\<lambda>i. s ! i) idx) (map_of df c)"
  by (induction df) (auto simp: take_rows_def)

lemma sns_barplot_eq:
  "sns_barplot x y df =
     (case map_of df x of None \<Rightarrow> ([], Inl (ValueError x))
      | Some _ \<Rightarrow> (case map_of df y of None \<Rightarrow> ([], Inl (ValueError y))
          | Some _ \<Rightarrow> ([BarPlot x y df], Inr ())))"
  by (simp add: sns_barplot_def sns_lookup_def emit_def split: option.splits)

lemma draw_top_bottom_data_missing:
  "map_of df column = None \<Longrightarrow>
   draw_top_bottom_data v df column cnt top' = ([Figure], Inl (KeyError [column]))"
  by (simp add: draw_top_bottom_data_def sort_values_def getitem_def bindE_def)

lemma draw_top_bottom_data_sorted:
  assumes "map_of df column = Some keys" "nargsort keys top' = Inr idx"
  shows "draw_top_bottom_data v df column cnt top' =
     (case map_of df ''name'' of
        None \<Rightarrow> ([Figure], Inl (ValueError ''name''))
      | Some _ \<Rightarrow>
         ([Figure, BarPlot column ''name'' (take_rows df (slice_to cnt idx)),
           SetTitle (''Top '' @ str_int cnt @ '' '' @ (if top' then ''best'' else ''worst'')
                     @ '' results for '' @ column),
           XLabel ''Degrees'', YLabel [],
           SaveFig (chart_path v (''Top '' @ str_int cnt @ '' ''
                     @ (if top' then ''best'' else ''worst'') @ '' results for '' @ column)) 300,
           Show, Close],
          Inr (chart_path v (''Top '' @ str_int cnt @ '' ''
                     @ (if top' then ''best'' else ''worst'') @ '' results for '' @ column))))"
  using assms
  by (simp add: draw_top_bottom_data_def sort_values_def getitem_def bindE_def Let_def
        head_take_rows sns_barplot_eq map_of_take_rows split: option.splits)

lemma draw_top_bottom_data_rows:
  assumes "map_of df column = Some (map Num vals)"
    and "map_of df ''name'' = Some names"
    and "length names = length vals"
    and "0 \<le> cnt"
  shows "\<exists>sel.
      draw_top_bottom_data v df column cnt top' =
        ([Figure, BarPlot column ''name'' (take_rows df sel),
          SetTitle (''Top '' @ str_int cnt @ '' '' @ (if top' then ''best'' else ''worst'')
                    @ '' results for '' @ column),
          XLabel ''Degrees'', YLabel [],
          SaveFig (chart_path v (''Top '' @ str_int cnt @ '' ''
                    @ (if top' then ''best'' else ''worst'') @ '' results for '' @ column)) 300,
          Show, Close],
         Inr (chart_path v (''Top '' @ str_int cnt @ '' ''
                    @ (if top' then ''best'' else ''worst'') @ '' results for '' @ column)))
      \<and> distinct sel \<and> set sel \<subseteq> {..<length vals}
      \<and> length sel = min (nat cnt) (length vals)
      \<and> map_of (take_rows df sel) column = Some (map (\<lambda>i. Num (vals ! i)) sel)
      \<and> map_of (take_rows df sel) ''name'' = Some (map (\<lambda>i. names ! i) sel)
      \<and> (\<forall>i \<in> set sel. \<forall>j < length vals. j \<notin> set sel \<longrightarrow>
            (if top' then vals ! i \<le> vals ! j else vals ! j \<le> vals ! i))
      \<and> sorted_wrt (\<lambda>i j. if top' then vals ! i \<le> vals ! j else vals ! j \<le> vals ! i) sel"
proof -
  define key where "key = (\<lambda>i. num_of (map Num vals ! i))"
  define s where "s = argsort_by key [0..<length vals] top'"
  define sel where "sel = take (nat cnt) s"
  have key: "key i = vals ! i" if "i < length vals" for i
    using that by (simp add: key_def)
  have sset: "set s = {..<length vals}" by (auto simp: s_def)
  have sdist: "distinct s" by (simp add: s_def)
  have slen: "length s = length vals" by (simp add: s_def)
  have sub: "set sel \<subseteq> {..<length vals}"
    using sset set_take_subset [of "nat cnt" s] by (simp add: sel_def)
  have srt: "sorted_wrt (\<lambda>i j. if top' then key i \<le> key j else key j \<le> key i) s"
    unfolding s_def by (rule argsort_by_sorted)
  have sl: "slice_to cnt s = sel"
    using assms(4) by (simp add: slice_to_def sel_def)
  have ns: "nargsort (map Num vals) top' = Inr s"
    by (simp add: nargsort_Num s_def key_def)
  have run: "draw_top_bottom_data v df column cnt top' =
        ([Figure, BarPlot column ''name'' (take_rows df sel),
          SetTitle (''Top '' @ str_int cnt @ '' '' @ (if top' then ''best'' else ''worst'')
                    @ '' results for '' @ column),
          XLabel ''Degrees'', YLabel [],
          SaveFig (chart_path v (''Top '' @ str_int cnt @ '' ''
                    @ (if top' then ''best'' else ''worst'') @ '' results for '' @ column)) 300,
          Show, Close],
         Inr (chart_path v (''Top '' @ str_int cnt @ '' ''
                    @ (if top' then ''best'' else ''worst'') @ '' results for '' @ column)))"
    using draw_top_bottom_data_sorted [OF assms(1) ns, of v cnt] assms(2) by (simp add: sl)
  have d: "distinct sel" using sdist by (simp add: sel_def)
  have l: "length sel = min (nat cnt) (length vals)" by (simp add: sel_def slen)
  have c: "map_of (take_rows df sel) column = Some (map (\<lambda>i. Num (vals ! i)) sel)"
    using sub by (auto simp: map_of_take_rows assms(1))
  have n: "map_of (take_rows df sel) ''name'' = Some (map (\<lambda>i. names ! i) sel)"
    by (simp add: map_of_take_rows assms(2))
  have o: "\<forall>i \<in> set sel. \<forall>j < length vals. j \<notin> set sel \<longrightarrow>
            (if top' then vals ! i \<le> vals ! j else vals ! j \<le> vals ! i)"
  proof (intro ballI allI impI)
    fix i j assume i: "i \<in> set sel" and j: "j < length vals" "j \<notin> set sel"
    from j sset have js: "j \<in> set s" by simp
    from i sub have il: "i < length vals" by auto
    have "if top' then key i \<le> key j else key j \<le> key i"
      using sorted_wrt_take_drop [OF srt, of i "nat cnt" j] i j(2) js
      by (simp add: sel_def)
    then show "if top' then vals ! i \<le> vals ! j else vals ! j \<le> vals ! i"
      by (cases top') (simp_all add: key il j(1))
  qed
  have "sorted_wrt (\<lambda>i j. if top' then key i \<le> key j else key j \<le> key i) sel"
    unfolding sel_def using srt by (rule sorted_wrt_take)
  then have w: "sorted_wrt (\<lambda>i j. if top' then vals ! i \<le> vals ! j else vals ! j \<le> vals ! i) sel"
  proof (rule sorted_wrt_mono_rel [rotated])
    fix x y assume x: "x \<in> set sel" and y: "y \<in> set sel"
      and r: "if top' then key x \<le> key y else key y \<le> key x"
    from x y sub have "x < length vals" "y < length vals" by auto
    with r show "if top' then vals ! x \<le> vals ! y else vals ! y \<le> vals ! x"
      by (cases top') (simp_all add: key)
  qed
  from run d sub l c n o w
  show "\<exists>sel.
      draw_top_bottom_data v df column cnt top' =
        ([Figure, BarPlot column ''name'' (take_rows df sel),
          SetTitle (''Top '' @ str_int cnt @ '' '' @ (if top' then ''best'' else ''worst'')
                    @ '' results for '' @ column),
          XLabel ''Degrees'', YLabel [],
          SaveFig (chart_path v (''Top '' @ str_int cnt @ '' ''
                    @ (if top' then ''best'' else ''worst'') @ '' results for '' @ column)) 300,
          Show, Close],
         Inr (chart_path v (''Top '' @ str_int cnt @ '' ''
                    @ (if top' then ''best'' else ''worst'') @ '' results for '' @ column)))
      \<and> distinct sel \<and> set sel \<subseteq> {..<length vals}
      \<and> length sel = min (nat cnt) (length vals)
      \<and> map_of (take_rows df sel) column = Some (map (\<lambda>i. Num (vals ! i)) sel)
      \<and> map_of (take_rows df sel) ''name'' = Some (map (\<lambda>i. names ! i) sel)
      \<and> (\<forall>i \<in> set sel. \<forall>j < length vals. j \<notin> set sel \<longrightarrow>
            (if top' then vals ! i \<le> vals ! j else vals ! j \<le> vals ! i))
      \<and> sorted_wrt (\<lambda>i j. if top' then vals ! i \<le> vals ! j else vals ! j \<le> vals ! i) sel"
    by blast
qed

text \<open>
  Claim C2, as the code has it. For every table with a column of numbers and a
  \<open>name\<close> column of the same length, and every count \<open>cnt \<ge> 0\<close>,
  \<open>draw_top_bottom_data\<close> draws one bar chart of the rows \<open>sel\<close>, where \<open>sel\<close>
  holds \<open>min cnt n\<close> distinct rows of the table, each plotted with its own value and
  its own name. With \<open>top\<close> true (the chart titled \<open>best\<close>) every plotted value is at
  most every value left out, and the bars are in ascending order: the \<open>cnt\<close> smallest
  values. With \<open>top\<close> false (titled \<open>worst\<close>) every plotted value is at least every
  value left out, in descending order: the \<open>cnt\<close> largest. In \<open>draw_plots\<close> both
  calls are the last two of the batch, on column \<open>mean\<close> with count 10.
\<close>

theorem draw_top_bottom_data_selects:
  assumes "map_of df column = Some (map Num vals)"
    and "map_of df ''name'' = Some names"
    and "length names = length vals"
    and "0 \<le> cnt"
  shows "(\<exists>sel.
      draw_top_bottom_data v df column cnt top' =
        ([Figure, BarPlot column ''name'' (take_rows df sel),
          SetTitle (''Top '' @ str_int cnt @ '' '' @ (if top' then ''best'' else ''worst'')
                    @ '' results for '' @ column),
          XLabel ''Degrees'', YLabel [],
          SaveFig (chart_path v (''Top '' @ str_int cnt @ '' ''
                    @ (if top' then ''best'' else ''worst'') @ '' results for '' @ column)) 300,
          Show, Close],
         Inr (chart_path v (''Top '' @ str_int cnt @ '' ''
                    @ (if top' then ''best'' else ''worst'') @ '' results for '' @ column)))
      \<and> distinct sel \<and> set sel \<subseteq> {..<length vals}
      \<and> length sel = min (nat cnt) (length vals)
      \<and> map_of (take_rows df sel) column = Some (map (\<lambda>i. Num (vals ! i)) sel)
      \<and> map_of (take_rows df sel) ''name'' = Some (map (\<lambda>i. names ! i) sel)
      \<and> (\<forall>i \<in> set sel. \<forall>j < length vals. j \<notin> set sel \<longrightarrow>
            (if top' then vals ! i \<le> vals ! j else vals ! j \<le> vals ! i))
      \<and> sorted_wrt (\<lambda>i j. if top' then vals ! i \<le> vals ! j else vals ! j \<le> vals ! i) sel)
    \<and> batch ChartDrawerPy df ! 7 = draw_top_bottom_data ChartDrawerPy df ''mean'' 10 True
    \<and> batch ChartDrawerPy df ! 8 = draw_top_bottom_data ChartDrawerPy df ''mean'' 10 False
    \<and> batch PlotterPy df ! 11 = draw_top_bottom_data PlotterPy df ''mean'' 10 True
    \<and> batch PlotterPy df ! 12 = draw_top_bottom_data PlotterPy df ''mean'' 10 False"
  using draw_top_bottom_data_rows [OF assms, of v top'] by simp

theorem draw_top_bottom_data_selects_witness:
  "map_of full_table ''mean'' = Some (map Num [3, 1])
   \<and> map_of full_table ''name'' = Some [Str ''room a'', Str ''room b'']
   \<and> fst (draw_top_bottom_data ChartDrawerPy full_table ''mean'' 1 True) ! 1 =
       BarPlot ''mean'' ''name'' (take_rows full_table [1])
   \<and> fst (draw_top_bottom_data ChartDrawerPy full_table ''mean'' 1 False) ! 1 =
       BarPlot ''mean'' ''name'' (take_rows full_table [0])"
proof -
  have m: "map_of full_table ''mean'' = Some (map Num [3, 1])"
    by (simp add: full_table_def)
  have n: "map_of full_table ''name'' = Some [Str ''room a'', Str ''room b'']"
    by (simp add: full_table_def)
  have l: "length [Str ''room a'', Str ''room b''] = length [3, 1 :: real]" by simp
  have c: "(0::int) \<le> 1" by simp
  have pick: "sel = [if b then 1 else 0]"
    if "length sel = min (nat 1) (length [3, 1 :: real])"
      and "set sel \<subseteq> {..<length [3, 1 :: real]}"
      and "\<forall>i \<in> set sel. \<forall>j < length [3, 1 :: real]. j \<notin> set sel \<longrightarrow>
            (if b then [3, 1 :: real] ! i \<le> [3, 1] ! j else [3, 1 :: real] ! j \<le> [3, 1] ! i)"
    for sel :: "nat list" and b
  proof -
    from that(1) obtain i where sel: "sel = [i]"
      by (cases sel) auto
    from that(2) sel have "i = 0 \<or> i = 1" by auto
    moreover from that(3) sel have q: "(if b then [3, 1 :: real] ! i \<le> [3, 1] ! j
          else [3, 1 :: real] ! j \<le> [3, 1] ! i)" if "j < 2" "j \<noteq> i" for j
      using that by simp
    have "\<not> (i = 0 \<and> b)" using q [of 1] by (auto split: if_splits)
    moreover have "\<not> (i = 1 \<and> \<not> b)" using q [of 0] by (auto split: if_splits)
    ultimately show ?thesis
      using sel by auto
  qed
  from draw_top_bottom_data_selects [OF m n l c, of ChartDrawerPy True]
  obtain s1 where s1: "fst (draw_top_bottom_data ChartDrawerPy full_table ''mean'' 1 True) ! 1 =
       BarPlot ''mean'' ''name'' (take_rows full_table s1)" "s1 = [1]"
    using pick [of _ True] by auto
  from draw_top_bottom_data_selects [OF m n l c, of ChartDrawerPy False]
  obtain s2 where s2: "fst (draw_top_bottom_data ChartDrawerPy full_table ''mean'' 1 False) ! 1 =
       BarPlot ''mean'' ''name'' (take_rows full_table s2)" "s2 = [0]"
    using pick [of _ False] by auto
  from m n s1 s2 show ?thesis by simp
qed

theorem draw_top_bottom_data_counterexample:
  "fst (draw_top_bottom_data ChartDrawerPy full_table ''mean'' 1 True) ! 1 =
     BarPlot ''mean'' ''name''
       [(''name'', [Str ''room b'']), (''gt_corners'', [Num 6]), (''rb_corners'', [Num 5]),
        (''mean'', [Num 1]), (''min'', [Num 0]), (''max'', [Num 2]),
        (''floor_min'', [Num 0]), (''floor_mean'', [Num 1]), (''floor_max'', [Num 2]),
        (''ceiling_min'', [Num 0]), (''ceiling_mean'', [Num 1]), (''ceiling_max'', [Num 2])]
   \<and> map_of full_table ''mean'' = Some [Num 3, Num 1]
   \<and> map_of full_table ''name'' = Some [Str ''room a'', Str ''room b'']
   \<and> (1 :: real) < 3"
  by code_simp

subsection \<open>Running the batch\<close>

lemma snd_run_batch_Cons:
  "snd (run_batch (a # as) acc) =
     (case snd a of Inl ex \<Rightarrow> (acc, Some ex) | Inr p \<Rightarrow> snd (run_batch as (acc @ [p])))"
  by (cases a) (simp split: sum.splits prod.splits)

lemma snd_run_batch_Nil: "snd (run_batch [] acc) = (acc, None)"
  by simp

lemma snd_draw_plots:
  assumes "snd (check_url e url) = Inr True" and "read_json e url = Inr df"
  shows "snd (draw_plots v e url) =
     (case snd (run_batch (batch v df) []) of
        (plot_paths, None) \<Rightarrow> Inr plot_paths
      | (plot_paths, Some (KeyError k)) \<Rightarrow> Inr plot_paths
      | (plot_paths, Some ex) \<Rightarrow> Inl ex)"
  using assms(2)
  by (simp add: draw_plots_def check_url_True [OF assms(1)]
           split: prod.splits option.splits exc.splits)

lemma numeric_columnD:
  "numeric_column df c \<Longrightarrow> \<exists>s. map_of df c = Some s \<and> list_all is_Num s"
  by (simp add: numeric_column_def split: option.splits)

lemma is_Num_not_Str: "list_all is_Num s \<Longrightarrow> \<not> list_ex is_Str s"
  by (induction s) (auto elim: is_Num.elims)

lemma is_Num_map: "list_all is_Num s \<Longrightarrow> map Num (map num_of s) = s"
  by (induction s) (auto elim: is_Num.elims)

lemma columns_map_of: "c \<in> set (columns df) \<longleftrightarrow> map_of df c \<noteq> None"
  by (simp add: columns_def map_of_eq_None_iff)

lemma snd_draw_scatterplot_line:
  assumes "numeric_column df x" "numeric_column df y"
  shows "snd (draw_scatterplot v df x y True) =
           Inr (chart_path v (''Scatter plot '' @ x @ '' vs '' @ y))"
proof -
  obtain sx where sx: "map_of df x = Some sx" "list_all is_Num sx"
    using numeric_columnD [OF assms(1)] by blast
  obtain sy where sy: "map_of df y = Some sy" "list_all is_Num sy"
    using numeric_columnD [OF assms(2)] by blast
  obtain hi where hi: "max_limit df x y = Inr hi"
    using max_limit_numeric [OF sx(1) sy(1)] sx(2) sy(2) is_Num_not_Str by blast
  obtain lo where lo: "min_limit df x y = Inr lo"
    using min_limit_numeric [OF sx(1) sy(1)] sx(2) sy(2) is_Num_not_Str by blast
  show ?thesis
    by (simp add: draw_scatterplot_line [OF hi lo sx(1) sy(1)])
qed

lemma snd_draw_scatterplot_noline:
  assumes "numeric_column df x" "numeric_column df y"
  shows "snd (draw_scatterplot v df x y False) =
           Inr (chart_path v (''Scatter plot '' @ x @ '' vs '' @ y))"
proof -
  obtain sx where sx: "map_of df x = Some sx"
    using numeric_columnD [OF assms(1)] by blast
  obtain sy where sy: "map_of df y = Some sy"
    using numeric_columnD [OF assms(2)] by blast
  show ?thesis by (simp add: draw_scatterplot_noline sx sy)
qed

lemma snd_draw_scatterplot_noline_missing_y:
  assumes "numeric_column df x" "map_of df y = None"
  shows "snd (draw_scatterplot v df x y False) = Inl (ValueError y)"
proof -
  obtain sx where sx: "map_of df x = Some sx"
    using numeric_columnD [OF assms(1)] by blast
  show ?thesis by (simp add: draw_scatterplot_noline sx assms(2))
qed

lemma snd_draw_histogram:
  assumes "numeric_column df c"
  shows "snd (draw_histogram v df c bins) = Inr (chart_path v (''Histogram for '' @ c))"
proof -
  obtain s where s: "map_of df c = Some s"
    using numeric_columnD [OF assms] by blast
  show ?thesis by (simp add: draw_histogram_present [OF s])
qed

lemma snd_draw_boxplots:
  assumes "list_all (numeric_column df) cs" "''value'' \<notin> set cs"
  shows "snd (draw_boxplots v df cs t) = Inr (chart_path v (''Boxplots for '' @ t))"
proof -
  have "set cs \<subseteq> set (columns df)"
    using assms(1) numeric_columnD by (fastforce simp: list_all_iff columns_map_of)
  from draw_boxplots_present [OF this assms(2), of v t] show ?thesis by auto
qed

lemma snd_draw_combined_boxplots:
  assumes "list_all (numeric_column df) c1" "list_all (numeric_column df) c2"
    "''value'' \<notin> set c1" "''value'' \<notin> set c2"
  shows "snd (draw_combined_boxplots df c1 c2 t) = Inl (KeyError [''Metric''])"
proof -
  have 1: "set c1 \<subseteq> set (columns df)"
    using assms(1) numeric_columnD by (fastforce simp: list_all_iff columns_map_of)
  have 2: "set c2 \<subseteq> set (columns df)"
    using assms(2) numeric_columnD by (fastforce simp: list_all_iff columns_map_of)
  show ?thesis
    by (simp add: draw_combined_boxplots_Metric [OF 1 2 assms(3) assms(4)])
qed

lemma snd_draw_top_bottom_data:
  assumes "numeric_column df c" "''name'' \<in> set (columns df)"
  shows "snd (draw_top_bottom_data v df c cnt top') =
     Inr (chart_path v (''Top '' @ str_int cnt @ '' '' @ (if top' then ''best'' else ''worst'')
            @ '' results for '' @ c))"
proof -
  obtain s where s: "map_of df c = Some s" "list_all is_Num s"
    using numeric_columnD [OF assms(1)] by blast
  obtain idx where idx: "nargsort s top' = Inr idx"
    using nargsort_Num [of "map num_of s" top'] is_Num_map [OF s(2)] by auto
  obtain names where n: "map_of df ''name'' = Some names"
    using assms(2) by (auto simp: columns_map_of)
  show ?thesis
    by (simp add: draw_top_bottom_data_sorted [OF s(1) idx] n)
qed

lemma snd_draw_top_bottom_data_no_name:
  assumes "numeric_column df c" "map_of df ''name'' = None"
  shows "snd (draw_top_bottom_data v df c cnt top') = Inl (ValueError ''name'')"
proof -
  obtain s where s: "map_of df c = Some s" "list_all is_Num s"
    using numeric_columnD [OF assms(1)] by blast
  obtain idx where idx: "nargsort s top' = Inr idx"
    using nargsort_Num [of "map num_of s" top'] is_Num_map [OF s(2)] by auto
  show ?thesis
    by (simp add: draw_top_bottom_data_sorted [OF s(1) idx] assms(2))
qed

lemma str_int_10: "str_int 10 = ''10''"
  by code_simp

lemma chart_path_PlotterPy:
  "chart_path PlotterPy (c # cs) =
     (if c = CHR ''/'' then map (\<lambda>c. if c = CHR '' '' then CHR ''_'' else c) (c # cs) @ ''.png''
      else ''plots/'' @ map (\<lambda>c. if c = CHR '' '' then CHR ''_'' else c) (c # cs) @ ''.png'')"
  by (simp add: chart_path_def save_plot_to_file_def str_replace_char plot_dir_def Let_def
        os_path_join_def suffix_def)

lemma chart_path_ChartDrawerPy:
  "chart_path ChartDrawerPy (c # cs) =
     (if c = CHR ''/'' then (c # cs) @ ''.png'' else ''plots/'' @ (c # cs) @ ''.png'')"
  by (simp add: chart_path_def save_plot_to_file_def plot_dir_def Let_def
        os_path_join_def suffix_def)

lemma well_formed_columns:
  assumes "well_formed df"
  shows "numeric_column df ''gt_corners''" "numeric_column df ''rb_corners''"
    "numeric_column df ''mean''" "numeric_column df ''min''" "numeric_column df ''max''"
    "numeric_column df ''floor_min''" "numeric_column df ''floor_mean''"
    "numeric_column df ''floor_max''" "numeric_column df ''ceiling_min''"
    "numeric_column df ''ceiling_mean''" "numeric_column df ''ceiling_max''"
    "''name'' \<in> set (columns df)"
  using assms by (simp_all add: well_formed_def numeric_columns_def)

lemma run_batch_PlotterPy_well_formed:
  assumes "well_formed df"
  shows "snd (run_batch (batch PlotterPy df) []) =
           (extended_paths, Some (KeyError [''Metric'']))"
  by (simp del: run_batch.simps add: snd_run_batch_Cons snd_run_batch_Nil well_formed_columns [OF assms]
        snd_draw_scatterplot_line snd_draw_scatterplot_noline snd_draw_histogram
        snd_draw_boxplots snd_draw_combined_boxplots
        floor_columns_def ceiling_columns_def chart_path_PlotterPy extended_paths_def)

lemma run_batch_ChartDrawerPy_well_formed:
  assumes "well_formed df"
  shows "snd (run_batch (batch ChartDrawerPy df) []) = (basic_paths, None)"
  by (simp del: run_batch.simps add: snd_run_batch_Cons snd_run_batch_Nil well_formed_columns [OF assms]
        snd_draw_scatterplot_line snd_draw_scatterplot_noline snd_draw_histogram
        snd_draw_boxplots snd_draw_top_bottom_data str_int_10
        chart_path_ChartDrawerPy basic_paths_def)

lemma well_formed_full_table: "well_formed full_table"
  by (simp add: well_formed_def numeric_columns_def numeric_column_def full_table_def
        columns_def nrows_def)

lemma check_url_serving: "snd (check_url (serving df) url) = Inr True"
  by (simp add: check_url_def requests_head_def raise_for_status_def lift_def serving_def)

lemma read_json_serving: "read_json (serving df) url = Inr df"
  by (simp add: serving_def)

text \<open>
  Claim C1, against the code. For every well-formed table served at a reachable URL,
  \<open>draw_plots\<close> of \<open>src/ChartDrawer.py\<close> returns its nine paths, but \<open>draw_plots\<close> of
  \<open>src/plotter.py\<close> returns ten paths, not thirteen: the eleventh call,
  \<open>draw_combined_boxplots\<close>, raises KeyError, which ends the batch.
\<close>

theorem draw_plots_well_formed:
  assumes "well_formed df"
    and "snd (check_url e url) = Inr True"
    and "read_json e url = Inr df"
  shows "snd (draw_plots PlotterPy e url) = Inr extended_paths
     \<and> length extended_paths = 10
     \<and> snd (draw_plots ChartDrawerPy e url) = Inr basic_paths
     \<and> length basic_paths = 9"
  by (simp del: run_batch.simps batch.simps add: snd_draw_plots [OF assms(2) assms(3)]
        run_batch_PlotterPy_well_formed [OF assms(1)]
        run_batch_ChartDrawerPy_well_formed [OF assms(1)]
        extended_paths_def basic_paths_def)

theorem draw_plots_well_formed_witness:
  "well_formed full_table
   \<and> snd (draw_plots PlotterPy (serving full_table) ''http://host/data.json'') =
       Inr extended_paths
   \<and> length extended_paths = 10
   \<and> snd (draw_plots ChartDrawerPy (serving full_table) ''http://host/data.json'') =
       Inr basic_paths"
  using draw_plots_well_formed
      [OF well_formed_full_table check_url_serving read_json_serving]
    well_formed_full_table
  by simp

subsection \<open>A missing column\<close>

text \<open>
  When the first exception of the batch is a KeyError, the paths of the calls before it
  are returned; any other exception leaves \<open>draw_plots\<close>.
\<close>

lemma run_batch_stops:
  assumes "list_all (\<lambda>a. \<exists>p. snd a = Inr p) as" and "snd b = Inl ex"
  shows "snd (run_batch (as @ b # cs) acc) =
           (acc @ map (\<lambda>a. projr (snd a)) as, Some ex)"
  using assms(1)
proof (induction as arbitrary: acc)
  case Nil
  then show ?case by (simp del: run_batch.simps add: snd_run_batch_Cons assms(2))
next
  case (Cons a as)
  then show ?case by (auto simp del: run_batch.simps simp add: snd_run_batch_Cons)
qed

lemma map_of_without: "map_of (without c df) k = (if k = c then None else map_of df k)"
  by (induction df) (auto simp: without_def)

lemma numeric_column_without:
  "k \<noteq> c \<Longrightarrow> numeric_column (without c df) k = numeric_column df k"
  by (simp add: numeric_column_def map_of_without)

text \<open>
  Claim C4, against the code. A table that lacks the column \<open>mean\<close> (and has numeric
  \<open>gt_corners\<close> and \<open>rb_corners\<close>) first misses it in the second call of
  \<open>src/plotter.py\<close>, a scatter plot without reference line. There only seaborn looks the
  column up, and it raises ValueError, which \<open>except KeyError\<close> does not catch:
  \<open>draw_plots\<close> raises instead of returning the first path.
\<close>

theorem draw_plots_missing_mean_raises:
  assumes "numeric_column df ''gt_corners''" and "numeric_column df ''rb_corners''"
    and "map_of df ''mean'' = None"
    and "snd (check_url e url) = Inr True"
    and "read_json e url = Inr df"
  shows "snd (draw_plots PlotterPy e url) = Inl (ValueError ''mean'')"
  by (simp del: run_batch.simps add: snd_draw_plots [OF assms(4) assms(5)] snd_run_batch_Cons
        snd_draw_scatterplot_line snd_draw_scatterplot_noline_missing_y assms(1-3))

theorem draw_plots_missing_mean_raises_witness:
  "numeric_column (without ''mean'' full_table) ''gt_corners''
   \<and> numeric_column (without ''mean'' full_table) ''rb_corners''
   \<and> map_of (without ''mean'' full_table) ''mean'' = None
   \<and> snd (draw_plots PlotterPy (serving (without ''mean'' full_table)) ''http://host/data.json'')
       = Inl (ValueError ''mean'')"
proof -
  have g: "numeric_column (without ''mean'' full_table) ''gt_corners''"
    by (simp add: numeric_column_without well_formed_columns [OF well_formed_full_table])
  have r: "numeric_column (without ''mean'' full_table) ''rb_corners''"
    by (simp add: numeric_column_without well_formed_columns [OF well_formed_full_table])
  have m: "map_of (without ''mean'' full_table) ''mean'' = None"
    by (simp add: map_of_without)
  from draw_plots_missing_mean_raises [OF g r m check_url_serving read_json_serving] g r m
  show ?thesis by simp
qed

text \<open>
  For comparison, a column that pandas looks up first: without \<open>min\<close>, the seventh
  call of \<open>src/plotter.py\<close> raises KeyError, which is caught, and the six paths made
  before it are returned.
\<close>

lemma draw_plots_missing_min:
  assumes "numeric_column df ''gt_corners''" and "numeric_column df ''rb_corners''"
    and "numeric_column df ''mean''" and "numeric_column df ''floor_mean''"
    and "numeric_column df ''ceiling_mean''"
    and "map_of df ''min'' = None"
    and "snd (check_url e url) = Inr True"
    and "read_json e url = Inr df"
  shows "snd (draw_plots PlotterPy e url) = Inr (take 6 extended_paths)"
proof -
  have "''min'' \<notin> set (columns df)"
    using assms(6) by (simp add: columns_map_of)
  then have "\<not> set [''min'', ''mean'', ''max''] \<subseteq> set (columns df)" by simp
  from draw_boxplots_missing [OF this, of PlotterPy "''stats''"]
  have b: "\<exists>k. snd (draw_boxplots PlotterPy df [''min'', ''mean'', ''max''] ''stats'') =
             Inl (KeyError k)"
    by simp
  then obtain k where k: "snd (draw_boxplots PlotterPy df [''min'', ''mean'', ''max''] ''stats'') =
             Inl (KeyError k)" by blast
  show ?thesis
    by (simp del: run_batch.simps add: snd_draw_plots [OF assms(7) assms(8)] snd_run_batch_Cons
          snd_draw_scatterplot_line snd_draw_scatterplot_noline snd_draw_histogram
          assms(1-5) k chart_path_PlotterPy extended_paths_def)
qed

subsection \<open>Where the charts are saved\<close>

lemma snd_bind_InrD:
  "snd (bind m f) = Inr y \<Longrightarrow> \<exists>x. snd m = Inr x \<and> snd (f x) = Inr y"
  by (cases m) (auto simp: bind_def split: sum.splits prod.splits)

lemma snd_seq_InrD: "snd (seq m n) = Inr y \<Longrightarrow> snd n = Inr y"
  unfolding seq_def by (drule snd_bind_InrD) blast

lemma chart_path_under_plots:
  assumes "c \<noteq> CHR ''/''"
  shows "prefix ''plots/'' (chart_path v (c # cs)) \<and> suffix ''.png'' (chart_path v (c # cs))"
proof (cases v)
  case PlotterPy
  have "suffix ''.png'' (''plots/'' @ map (\<lambda>c. if c = CHR '' '' then CHR ''_'' else c) (c # cs)
          @ ''.png'')"
    by (intro suffix_appendI) simp
  then show ?thesis
    using assms PlotterPy by (simp add: chart_path_PlotterPy del: map_eq_Cons_conv list.map)
next
  case ChartDrawerPy
  have "suffix ''.png'' (''plots/'' @ (c # cs) @ ''.png'')"
    by (intro suffix_appendI) simp
  then show ?thesis
    using assms ChartDrawerPy by (simp add: chart_path_ChartDrawerPy)
qed

lemma draw_scatterplot_path:
  "snd (draw_scatterplot v df x y b) = Inr p \<Longrightarrow>
   p = chart_path v (''Scatter plot '' @ x @ '' vs '' @ y)"
  unfolding draw_scatterplot_def Let_def
  by (auto dest!: snd_seq_InrD)

lemma draw_histogram_path:
  "snd (draw_histogram v df c bins) = Inr p \<Longrightarrow> p = chart_path v (''Histogram for '' @ c)"
  unfolding draw_histogram_def Let_def
  by (auto dest!: snd_seq_InrD snd_bind_InrD)

lemma draw_boxplots_path:
  "snd (draw_boxplots v df cs t) = Inr p \<Longrightarrow> p = chart_path v (''Boxplots for '' @ t)"
  unfolding draw_boxplots_def Let_def
  by (auto dest!: snd_seq_InrD snd_bind_InrD)

lemma draw_top_bottom_data_path:
  "snd (draw_top_bottom_data v df c cnt top') = Inr p \<Longrightarrow>
   p = chart_path v (''Top '' @ str_int cnt @ '' '' @ (if top' then ''best'' else ''worst'')
         @ '' results for '' @ c)"
  unfolding draw_top_bottom_data_def Let_def
  by (auto dest!: snd_seq_InrD snd_bind_InrD)

lemma draw_combined_boxplots_path:
  "snd (draw_combined_boxplots df c1 c2 t) \<noteq> Inr p"
  using draw_combined_boxplots_raises [of df c1 c2 t] by auto

lemma batch_under_plots:
  assumes "a \<in> set (batch v df)" and "snd a = Inr p"
  shows "prefix ''plots/'' p \<and> suffix ''.png'' p"
proof (cases v)
  case PlotterPy
  with assms show ?thesis
    by (auto dest!: draw_scatterplot_path draw_histogram_path draw_boxplots_path
          draw_top_bottom_data_path
          simp: draw_combined_boxplots_path chart_path_under_plots)
next
  case ChartDrawerPy
  with assms show ?thesis
    by (auto dest!: draw_scatterplot_path draw_histogram_path draw_boxplots_path
          draw_top_bottom_data_path
          simp: chart_path_under_plots)
qed

lemma run_batch_under_plots:
  assumes "\<And>a p. a \<in> set as \<Longrightarrow> snd a = Inr p \<Longrightarrow> P p"
    and "\<And>p. p \<in> set acc \<Longrightarrow> P p"
    and "p \<in> set (fst (snd (run_batch as acc)))"
  shows "P p"
  using assms
proof (induction as arbitrary: acc)
  case Nil
  then show ?case by simp
next
  case (Cons a as)
  show ?case
  proof (cases "snd a")
    case (Inl ex)
    with Cons.prems(3) have "p \<in> set acc"
      by (simp del: run_batch.simps add: snd_run_batch_Cons)
    then show ?thesis by (rule Cons.prems(2))
  next
    case (Inr q)
    with Cons.prems(3) have m: "p \<in> set (fst (snd (run_batch as (acc @ [q]))))"
      by (simp del: run_batch.simps add: snd_run_batch_Cons)
    have q: "P q" using Cons.prems(1) [of a q] Inr by simp
    show ?thesis
    proof (rule Cons.IH [OF _ _ m])
      fix b r assume "b \<in> set as" "snd b = Inr r"
      then show "P r" using Cons.prems(1) [of b r] by simp
    next
      fix r assume "r \<in> set (acc @ [q])"
      then show "P r" using Cons.prems(2) q by auto
    qed
  qed
qed

lemma draw_plots_paths:
  assumes "snd (draw_plots v e url) = Inr paths"
  shows "paths = [] \<or>
         (\<exists>df. read_json e url = Inr df \<and> paths = fst (snd (run_batch (batch v df) [])))"
proof -
  obtain ok where ok: "snd (check_url e url) = Inr ok"
    using check_url_total by blast
  show ?thesis
  proof (cases ok)
    case False
    with ok assms show ?thesis
      by (simp add: draw_plots_def check_url_False)
  next
    case True
    show ?thesis
    proof (cases "read_json e url")
      case (Inl ex)
      with ok True assms show ?thesis
        by (cases ex) (simp_all add: draw_plots_def check_url_True)
    next
      case (Inr df)
      with ok True assms show ?thesis
        by (auto simp del: run_batch.simps batch.simps simp add: snd_draw_plots
              split: prod.splits option.splits exc.splits)
    qed
  qed
qed

text \<open>
  Claim C9. Every path in the list that \<open>draw_plots\<close> returns, in either file and for
  every network answer and table, begins with the output directory \<open>plots/\<close> and ends
  with \<open>.png\<close>.
\<close>

theorem draw_plots_paths_under_plots:
  assumes "snd (draw_plots v e url) = Inr paths" and "p \<in> set paths"
  shows "prefix ''plots/'' p \<and> suffix ''.png'' p"
proof -
  from draw_plots_paths [OF assms(1)] assms(2)
  obtain df where "p \<in> set (fst (snd (run_batch (batch v df) [])))"
    by auto
  then show ?thesis
    by (rule run_batch_under_plots [rotated 2]) (auto dest: batch_under_plots)
qed

theorem draw_plots_paths_under_plots_witness:
  "snd (draw_plots PlotterPy (serving full_table) ''http://host/data.json'') = Inr extended_paths
   \<and> ''plots/Histogram_for_mean.png'' \<in> set extended_paths
   \<and> prefix ''plots/'' ''plots/Histogram_for_mean.png''
   \<and> suffix ''.png'' ''plots/Histogram_for_mean.png''"
proof -
  have r: "snd (draw_plots PlotterPy (serving full_table) ''http://host/data.json'') =
           Inr extended_paths"
    by (simp del: run_batch.simps batch.simps
          add: snd_draw_plots [OF check_url_serving read_json_serving]
            run_batch_PlotterPy_well_formed [OF well_formed_full_table])
  have m: "''plots/Histogram_for_mean.png'' \<in> set extended_paths"
    by (simp add: extended_paths_def)
  from draw_plots_paths_under_plots [OF r m] r m show ?thesis by simp
qed

end
